theory Spec2Isabelle
  imports
    Main
    "HOL-Library.AList"
    "HOL-Library.Char_ord"
    "HOL-Library.List_Lexorder"
    "HOL-Library.Multiset"
begin

section \<open>Announcements endpoints of the High School Management System API\<close>

text \<open>
  The development embeds \<^verbatim>\<open>src/backend/routers/announcements.py\<close>. The six request
  handlers keep their names. Every handler is a function from the database and the
  request parameters to the response (or the raised \<^verbatim>\<open>HTTPException\<close>) and the database
  after the request. The two values a handler takes from its environment, the result of
  \<^verbatim>\<open>datetime.now().isoformat()\<close> and the \<^verbatim>\<open>ObjectId()\<close> that \<^verbatim>\<open>insert_one\<close> generates,
  are parameters, and so is the library function \<^verbatim>\<open>datetime.fromisoformat\<close>.
\<close>

subsection \<open>Python strings\<close>

text \<open>
  A Python \<^verbatim>\<open>str\<close> is modelled by its UTF-8 encoding: a \<^typ>\<open>string\<close> is the list of its
  bytes, an ASCII character is one byte and any other code point is two to four. Bytewise
  lexicographic order on the encodings is the order of the code points, which is how both
  Python and the document store compare strings.
\<close>

definition isspace :: "string \<Rightarrow> bool" where
  \<comment> \<open>\<^verbatim>\<open>str.isspace\<close> of one character, given by its encoding: U+0009 to U+000D, U+001C to
      U+0020, U+0085, U+00A0, U+1680, U+2000 to U+200A, U+2028, U+2029, U+202F, U+205F, U+3000\<close>
  "isspace w =
     (case w of
        [a] \<Rightarrow> (CHR 0x09 \<le> a \<and> a \<le> CHR 0x0D) \<or> (CHR 0x1C \<le> a \<and> a \<le> CHR 0x20)
      | [a, b] \<Rightarrow> a = CHR 0xC2 \<and> (b = CHR 0x85 \<or> b = CHR 0xA0)
      | [a, b, c] \<Rightarrow>
          (a = CHR 0xE1 \<and> b = CHR 0x9A \<and> c = CHR 0x80) \<or>
          (a = CHR 0xE2 \<and> b = CHR 0x80 \<and>
             ((CHR 0x80 \<le> c \<and> c \<le> CHR 0x8A) \<or> c = CHR 0xA8 \<or> c = CHR 0xA9 \<or> c = CHR 0xAF)) \<or>
          (a = CHR 0xE2 \<and> b = CHR 0x81 \<and> c = CHR 0x9F) \<or>
          (a = CHR 0xE3 \<and> b = CHR 0x80 \<and> c = CHR 0x80)
      | _ \<Rightarrow> False)"

fun strip_leading :: "(string \<Rightarrow> bool) \<Rightarrow> string \<Rightarrow> string" where
  \<comment> \<open>drops the characters at the front, of one, two or three bytes, that \<^verbatim>\<open>space\<close> accepts\<close>
  "strip_leading space [] = []"
| "strip_leading space (a # s) =
     (if space [a] then strip_leading space s
      else if space (a # take 1 s) then strip_leading space (drop 1 s)
      else if space (a # take 2 s) then strip_leading space (drop 2 s)
      else a # s)"

definition lstrip :: "string \<Rightarrow> string" where
  "lstrip s = strip_leading isspace s"

definition rstrip :: "string \<Rightarrow> string" where
  \<comment> \<open>the same from the end: the reversed string starts with the reversed encodings\<close>
  "rstrip s = rev (strip_leading (\<lambda>w. isspace (rev w)) (rev s))"

definition strip :: "string \<Rightarrow> string" where
  \<comment> \<open>\<^verbatim>\<open>s.strip()\<close>: every leading and trailing whitespace character is removed\<close>
  "strip s = rstrip (lstrip s)"

definition replace_Z :: "string \<Rightarrow> string" where
  \<comment> \<open>\<^verbatim>\<open>s.replace('Z', '+00:00')\<close>: every occurrence is replaced\<close>
  "replace_Z s = concat (map (\<lambda>c. if c = CHR ''Z'' then ''+00:00'' else [c]) s)"

subsection \<open>\<^verbatim>\<open>datetime.fromisoformat\<close>\<close>

text \<open>
  The handlers use \<^verbatim>\<open>datetime.fromisoformat\<close> only to see whether it raises
  \<^verbatim>\<open>ValueError\<close>, and the strings it accepts differ between Python versions. So the
  function is a parameter \<^verbatim>\<open>fromisoformat\<close> of the handlers that call it (\<^const>\<open>True\<close>: a
  datetime is returned; \<^const>\<open>False\<close>: \<^verbatim>\<open>ValueError\<close>), and what is proved of them holds
  for every such function.

  The examples need one: \<^verbatim>\<open>documented_format\<close> below recognises the format that the
  library documentation of Python 3.7 gives,
  \<^verbatim>\<open>YYYY-MM-DD[*HH[:MM[:SS[.fff[fff]]]][+HH:MM[:SS[.ffffff]]]]\<close>, where \<^verbatim>\<open>*\<close> is any single
  character.
\<close>

definition isdigit :: "char \<Rightarrow> bool" where
  "isdigit c = (CHR ''0'' \<le> c \<and> c \<le> CHR ''9'')"

definition digit :: "char \<Rightarrow> nat" where
  "digit c = of_char c - 48"

definition number :: "string \<Rightarrow> nat option" where
  \<comment> \<open>the value of a non-empty string of decimal digits\<close>
  "number s = (if s \<noteq> [] \<and> list_all isdigit s
               then Some (foldl (\<lambda>n c. 10 * n + digit c) 0 s) else None)"

definition is_leap :: "nat \<Rightarrow> bool" where
  "is_leap y = (y mod 4 = 0 \<and> (y mod 100 \<noteq> 0 \<or> y mod 400 = 0))"

definition days_in_month :: "nat \<Rightarrow> nat \<Rightarrow> nat" where
  "days_in_month y m =
     (if m = 2 then (if is_leap y then 29 else 28)
      else if m = 4 \<or> m = 6 \<or> m = 9 \<or> m = 11 then 30 else 31)"

definition parse_isoformat_date :: "string \<Rightarrow> bool" where
  \<comment> \<open>\<^verbatim>\<open>YYYY-MM-DD\<close>, a date of the proleptic Gregorian calendar, years 1 to 9999\<close>
  "parse_isoformat_date s =
     (length s = 10 \<and> s ! 4 = CHR ''-'' \<and> s ! 7 = CHR ''-'' \<and>
      (case (number (take 4 s), number (take 2 (drop 5 s)), number (drop 8 s)) of
         (Some y, Some m, Some d) \<Rightarrow>
           1 \<le> y \<and> 1 \<le> m \<and> m \<le> 12 \<and> 1 \<le> d \<and> d \<le> days_in_month y m
       | _ \<Rightarrow> False))"

definition parse_hh_mm_ss_ff :: "string \<Rightarrow> (nat \<times> nat \<times> nat) option" where
  \<comment> \<open>\<^verbatim>\<open>HH[:MM[:SS[.fff[fff]]]]\<close>; the fraction is checked and dropped\<close>
  "parse_hh_mm_ss_ff s =
     (case number (take 2 s) of
        None \<Rightarrow> None
      | Some h \<Rightarrow>
          if length s < 2 then None
          else if length s = 2 then Some (h, 0, 0)
          else if s ! 2 \<noteq> CHR '':'' then None
          else (case number (take 2 (drop 3 s)) of
            None \<Rightarrow> None
          | Some m \<Rightarrow>
              if length s < 5 then None
              else if length s = 5 then Some (h, m, 0)
              else if s ! 5 \<noteq> CHR '':'' then None
              else (case number (take 2 (drop 6 s)) of
                None \<Rightarrow> None
              | Some sec \<Rightarrow>
                  if length s < 8 then None
                  else if length s = 8 then Some (h, m, sec)
                  else if s ! 8 \<noteq> CHR ''.'' then None
                  else if (length s = 12 \<or> length s = 15) \<and> list_all isdigit (drop 9 s)
                  then Some (h, m, sec) else None)))"

definition parse_isoformat_time :: "string \<Rightarrow> bool" where
  \<comment> \<open>\<^verbatim>\<open>HH[:MM[:SS[.fff[fff]]]][+HH:MM[:SS[.ffffff]]]\<close>\<close>
  "parse_isoformat_time s =
     (let timestr = takeWhile (\<lambda>c. c \<noteq> CHR ''+'' \<and> c \<noteq> CHR ''-'') s;
          tzstr = drop (length timestr + 1) s
      in (case parse_hh_mm_ss_ff timestr of
            None \<Rightarrow> False
          | Some (h, m, sec) \<Rightarrow> h < 24 \<and> m < 60 \<and> sec < 60) \<and>
         (length timestr = length s \<or>
          (length tzstr \<in> {5, 8, 15} \<and>
           (case parse_hh_mm_ss_ff tzstr of
              None \<Rightarrow> False
            | Some (h, m, sec) \<Rightarrow> h < 24 \<and> m < 60 \<and> sec < 60))))"

definition documented_format :: "string \<Rightarrow> bool" where
  "documented_format s =
     (parse_isoformat_date (take 10 s) \<and>
      (length s = 10 \<or> (length s > 11 \<and> parse_isoformat_time (drop 11 s))))"

subsection \<open>Documents of the store\<close>

datatype objectid = ObjectId string

fun hex :: "objectid \<Rightarrow> string" where
  "hex (ObjectId h) = h"

datatype bson = BNull | BBool bool | BString string | BObjectId objectid

text \<open>
  A document is a Python \<^verbatim>\<open>dict\<close>: an association list, in insertion order.
  \<^const>\<open>map_of\<close> reads a key and \<^const>\<open>AList.update\<close> assigns one (in place when the
  key is there, at the end otherwise).
\<close>

type_synonym document = "(string \<times> bson) list"

definition field_value :: "document \<Rightarrow> string \<Rightarrow> bson" where
  \<comment> \<open>the store reads a missing field as null, in queries and in sort keys\<close>
  "field_value d k = (case map_of d k of None \<Rightarrow> BNull | Some v \<Rightarrow> v)"

fun hexdigit :: "char \<Rightarrow> bool" where
  "hexdigit c = (isdigit c \<or> (CHR ''a'' \<le> c \<and> c \<le> CHR ''f'') \<or> (CHR ''A'' \<le> c \<and> c \<le> CHR ''F''))"

definition lower :: "char \<Rightarrow> char" where
  \<comment> \<open>the lower-case form of a hexadecimal digit\<close>
  "lower c =
     (if c = CHR ''A'' then CHR ''a'' else if c = CHR ''B'' then CHR ''b''
      else if c = CHR ''C'' then CHR ''c'' else if c = CHR ''D'' then CHR ''d''
      else if c = CHR ''E'' then CHR ''e'' else if c = CHR ''F'' then CHR ''f'' else c)"

datatype exn =
    HTTPException nat string
  | InvalidId
  | ValueError
  | ServerSelectionTimeoutError
  | DuplicateKeyError

definition ascii_space :: "char \<Rightarrow> bool" where
  \<comment> \<open>the whitespace \<^verbatim>\<open>bytes.fromhex\<close> skips: TAB, LF, VT, FF, CR and SPACE\<close>
  "ascii_space c = ((CHR 0x09 \<le> c \<and> c \<le> CHR 0x0D) \<or> c = CHR '' '')"

fun fromhex :: "string \<Rightarrow> string option" where
  \<comment> \<open>\<^verbatim>\<open>bytes.fromhex(s)\<close>: two hexadecimal digits for each byte, whitespace allowed before
      each pair and at the end; the bytes are given as \<^verbatim>\<open>hex()\<close> prints them, in lower case;
      \<^const>\<open>None\<close> is \<^verbatim>\<open>ValueError\<close>\<close>
  "fromhex [] = Some []"
| "fromhex [c] = (if ascii_space c then Some [] else None)"
| "fromhex (c # d # s) =
     (if ascii_space c then fromhex (d # s)
      else if hexdigit c \<and> hexdigit d
        then map_option (\<lambda>h. lower c # lower d # h) (fromhex s)
      else None)"

definition parse_ObjectId :: "string \<Rightarrow> exn + objectid" where
  \<comment> \<open>\<^verbatim>\<open>ObjectId(s)\<close> for a \<^verbatim>\<open>str\<close>: \<^verbatim>\<open>len(s) == 24\<close> and \<^verbatim>\<open>bytes.fromhex(s)\<close> returns, else
      \<^verbatim>\<open>InvalidId\<close>; the identifier is kept as \<^verbatim>\<open>str\<close> prints its bytes\<close>
  "parse_ObjectId s =
     (if length s = 24
      then (case fromhex s of None \<Rightarrow> Inl InvalidId | Some h \<Rightarrow> Inr (ObjectId h))
      else Inl InvalidId)"

fun str :: "bson \<Rightarrow> string" where
  \<comment> \<open>Python's \<^verbatim>\<open>str(v)\<close>\<close>
  "str BNull = ''None''"
| "str (BBool b) = (if b then ''True'' else ''False'')"
| "str (BString s) = s"
| "str (BObjectId oid) = hex oid"

fun truthy :: "bson \<Rightarrow> bool" where
  \<comment> \<open>the truth value Python's \<^verbatim>\<open>not\<close> tests\<close>
  "truthy BNull = False"
| "truthy (BBool b) = b"
| "truthy (BString s) = (s \<noteq> [])"
| "truthy (BObjectId _) = True"

subsection \<open>Queries and sorting of the store\<close>

fun type_order :: "bson \<Rightarrow> nat" where
  \<comment> \<open>the store's order of types: null, string, ObjectId, boolean\<close>
  "type_order BNull = 0"
| "type_order (BString _) = 1"
| "type_order (BObjectId _) = 2"
| "type_order (BBool _) = 3"

fun same_type_le :: "bson \<Rightarrow> bson \<Rightarrow> bool" where
  "same_type_le BNull BNull = True"
| "same_type_le (BString a) (BString b) = (a \<le> b)"
| "same_type_le (BObjectId a) (BObjectId b) = (hex a \<le> hex b)"
| "same_type_le (BBool a) (BBool b) = (a \<le> b)"
| "same_type_le _ _ = False"

definition bson_le :: "bson \<Rightarrow> bson \<Rightarrow> bool" where
  \<comment> \<open>the order \<^verbatim>\<open>sort\<close> uses: by type first, then by value\<close>
  "bson_le a b = (type_order a < type_order b \<or> same_type_le a b)"

datatype cond = Eq bson | Lte bson | Gte bson

datatype query = Field string cond | Or "query list" | And "query list"

fun holds :: "cond \<Rightarrow> bson \<Rightarrow> bool" where
  \<comment> \<open>\<^verbatim>\<open>$lte\<close> and \<^verbatim>\<open>$gte\<close> compare values of the operand's type only\<close>
  "holds (Eq v) x = (x = v)"
| "holds (Lte v) x = same_type_le x v"
| "holds (Gte v) x = same_type_le v x"

fun matches :: "query \<Rightarrow> document \<Rightarrow> bool" where
  "matches (Field k c) d = holds c (field_value d k)"
| "matches (Or qs) d = list_ex (\<lambda>q. matches q d) qs"
| "matches (And qs) d = list_all (\<lambda>q. matches q d) qs"

fun insert_sorted :: "string \<Rightarrow> int \<Rightarrow> document \<Rightarrow> document list \<Rightarrow> document list" where
  "insert_sorted k dir d [] = [d]"
| "insert_sorted k dir d (x # xs) =
     (if (if dir = - 1 then bson_le (field_value x k) (field_value d k)
          else bson_le (field_value d k) (field_value x k))
      then d # x # xs else x # insert_sorted k dir d xs)"

definition sort_cursor :: "string \<Rightarrow> int \<Rightarrow> document list \<Rightarrow> document list" where
  \<comment> \<open>\<^verbatim>\<open>cursor.sort(k, dir)\<close>, \<^verbatim>\<open>dir = -1\<close> descending; ties keep the store's order\<close>
  "sort_cursor k dir ds = foldr (insert_sorted k dir) ds []"

subsection \<open>The database and its driver\<close>

text \<open>
  \<^verbatim>\<open>announcements_collection\<close> and \<^verbatim>\<open>teachers_collection\<close> of the \<^verbatim>\<open>database\<close> module
  are the two collections. A driver call raises when the server cannot be reached; that
  is the unexpected exception the handlers' \<^verbatim>\<open>except Exception\<close> clauses are for.
\<close>

record database =
  announcements_collection :: "document list"
  teachers_collection :: "document list"
  server_up :: bool

definition find_sort :: "database \<Rightarrow> document list \<Rightarrow> query \<Rightarrow> string \<Rightarrow> int \<Rightarrow> exn + document list" where
  \<comment> \<open>\<^verbatim>\<open>list(coll.find(q).sort(k, dir))\<close>\<close>
  "find_sort db coll q k dir =
     (if server_up db then Inr (sort_cursor k dir (filter (matches q) coll))
      else Inl ServerSelectionTimeoutError)"

definition find_one :: "database \<Rightarrow> document list \<Rightarrow> query \<Rightarrow> exn + document option" where
  "find_one db coll q =
     (if server_up db then Inr (List.find (matches q) coll) else Inl ServerSelectionTimeoutError)"

definition insert_one :: "database \<Rightarrow> document list \<Rightarrow> objectid \<Rightarrow> document
    \<Rightarrow> exn + (bson \<times> document \<times> document list)" where
  \<comment> \<open>a document without \<^verbatim>\<open>_id\<close> gets the generated one, in the caller's \<^verbatim>\<open>dict\<close> too;
      the result is \<^verbatim>\<open>inserted_id\<close>, the caller's \<^verbatim>\<open>dict\<close> and the collection\<close>
  "insert_one db coll generated doc =
     (if \<not> server_up db then Inl ServerSelectionTimeoutError
      else let doc' = (if map_of doc ''_id'' = None
                       then AList.update ''_id'' (BObjectId generated) doc else doc);
               inserted_id = field_value doc' ''_id''
           in if list_ex (\<lambda>d. field_value d ''_id'' = inserted_id) coll then Inl DuplicateKeyError
              else Inr (inserted_id, doc', coll @ [doc']))"

definition set_fields :: "document \<Rightarrow> document \<Rightarrow> document" where
  \<comment> \<open>\<^verbatim>\<open>{"$set": upd}\<close> applied to one document\<close>
  "set_fields upd d = foldl (\<lambda>d (k, v). AList.update k v d) d upd"

fun update_first :: "query \<Rightarrow> document \<Rightarrow> document list \<Rightarrow> document list \<times> nat" where
  "update_first q upd [] = ([], 0)"
| "update_first q upd (d # ds) =
     (if matches q d then (set_fields upd d # ds, 1)
      else (case update_first q upd ds of (ds', n) \<Rightarrow> (d # ds', n)))"

definition update_one :: "database \<Rightarrow> document list \<Rightarrow> query \<Rightarrow> document
    \<Rightarrow> exn + (nat \<times> document list)" where
  \<comment> \<open>\<^verbatim>\<open>coll.update_one(q, {"$set": upd})\<close>: \<^verbatim>\<open>matched_count\<close> and the collection\<close>
  "update_one db coll q upd =
     (if server_up db then (case update_first q upd coll of (coll', n) \<Rightarrow> Inr (n, coll'))
      else Inl ServerSelectionTimeoutError)"

fun delete_first :: "query \<Rightarrow> document list \<Rightarrow> document list \<times> nat" where
  "delete_first q [] = ([], 0)"
| "delete_first q (d # ds) =
     (if matches q d then (ds, 1)
      else (case delete_first q ds of (ds', n) \<Rightarrow> (d # ds', n)))"

definition delete_one :: "database \<Rightarrow> document list \<Rightarrow> query \<Rightarrow> exn + (nat \<times> document list)" where
  \<comment> \<open>\<^verbatim>\<open>coll.delete_one(q)\<close>: \<^verbatim>\<open>deleted_count\<close> and the collection\<close>
  "delete_one db coll q =
     (if server_up db then (case delete_first q coll of (coll', n) \<Rightarrow> Inr (n, coll'))
      else Inl ServerSelectionTimeoutError)"

subsection \<open>The request handlers\<close>

definition falsy :: "document option \<Rightarrow> bool" where
  \<comment> \<open>\<^verbatim>\<open>not doc\<close> for the result of \<^verbatim>\<open>find_one\<close>: \<^verbatim>\<open>None\<close> or an empty \<^verbatim>\<open>dict\<close>\<close>
  "falsy doc = (case doc of None \<Rightarrow> True | Some d \<Rightarrow> d = [])"

definition id_to_str :: "document \<Rightarrow> document" where
  \<comment> \<open>\<^verbatim>\<open>if "_id" in announcement: announcement["_id"] = str(announcement["_id"])\<close>\<close>
  "id_to_str announcement =
     (if map_of announcement ''_id'' \<noteq> None
      then AList.update ''_id'' (BString (str (field_value announcement ''_id''))) announcement
      else announcement)"

definition optional :: "string option \<Rightarrow> bson" where
  \<comment> \<open>an \<^verbatim>\<open>Optional[str]\<close> as a field value\<close>
  "optional s = (case s of None \<Rightarrow> BNull | Some v \<Rightarrow> BString v)"

definition validate_dates :: "(string \<Rightarrow> bool) \<Rightarrow> string \<Rightarrow> string option \<Rightarrow> exn + unit" where
  \<comment> \<open>the block under \<^verbatim>\<open># Validate dates\<close> of \<^verbatim>\<open>create_announcement\<close> and
      \<^verbatim>\<open>update_announcement\<close>; \<^verbatim>\<open>if start_date:\<close> skips \<^verbatim>\<open>None\<close> and the empty string\<close>
  "validate_dates fromisoformat end_date start_date =
     (if \<not> fromisoformat (replace_Z end_date) then Inl ValueError
      else (case start_date of
              None \<Rightarrow> Inr ()
            | Some s \<Rightarrow>
                if s \<noteq> [] then (if \<not> fromisoformat (replace_Z s) then Inl ValueError else Inr ())
                else Inr ()))"

definition get_active_announcements :: "database \<Rightarrow> string \<Rightarrow> (exn + document list) \<times> database" where
  "get_active_announcements db current_time =
     (let query = And [
            Field ''active'' (Eq (BBool True)),
            Or [Field ''start_date'' (Eq BNull),
                Field ''start_date'' (Lte (BString current_time))],
            Field ''end_date'' (Gte (BString current_time))]
      in case find_sort db (announcements_collection db) query ''created_at'' (- 1) of
           Inl e \<Rightarrow> (Inr [], db)
         | Inr announcements \<Rightarrow> (Inr (map id_to_str announcements), db))"

definition get_all_announcements :: "database \<Rightarrow> string \<Rightarrow> (exn + document list) \<times> database" where
  "get_all_announcements db teacher_username =
     (case find_one db (teachers_collection db) (Field ''_id'' (Eq (BString teacher_username))) of
        Inl e \<Rightarrow> (Inl (HTTPException 500 ''Failed to fetch announcements''), db)
      | Inr teacher \<Rightarrow>
          if falsy teacher then (Inl (HTTPException 401 ''Authentication required''), db)
          else (case find_sort db (announcements_collection db) (And []) ''created_at'' (- 1) of
                  Inl e \<Rightarrow> (Inl (HTTPException 500 ''Failed to fetch announcements''), db)
                | Inr announcements \<Rightarrow> (Inr (map id_to_str announcements), db)))"

definition create_announcement ::
  "(string \<Rightarrow> bool) \<Rightarrow> database \<Rightarrow> string \<Rightarrow> objectid \<Rightarrow> string \<Rightarrow> string \<Rightarrow> string
    \<Rightarrow> string option \<Rightarrow> (exn + (string \<times> document)) \<times> database" where
  \<comment> \<open>before the request parameters: the library's \<^verbatim>\<open>datetime.fromisoformat\<close>, the database,
      \<^verbatim>\<open>datetime.now().isoformat()\<close> and the generated \<^verbatim>\<open>ObjectId()\<close>\<close>
  "create_announcement fromisoformat db current_time generated message end_date teacher_username start_date =
     (case find_one db (teachers_collection db) (Field ''_id'' (Eq (BString teacher_username))) of
        Inl e \<Rightarrow> (Inl (HTTPException 500 ''Failed to create announcement''), db)
      | Inr teacher \<Rightarrow>
          if falsy teacher then (Inl (HTTPException 401 ''Authentication required''), db)
          else (case validate_dates fromisoformat end_date start_date of
            Inl e \<Rightarrow> (Inl (HTTPException 400 ''Invalid date format''), db)
          | Inr _ \<Rightarrow>
              let announcement_doc = [
                    (''message'', BString (strip message)),
                    (''start_date'', optional start_date),
                    (''end_date'', BString end_date),
                    (''created_by'', BString teacher_username),
                    (''created_at'', BString current_time),
                    (''active'', BBool True)]
              in (case insert_one db (announcements_collection db) generated announcement_doc of
                    Inl e \<Rightarrow> (Inl (HTTPException 500 ''Failed to create announcement''), db)
                  | Inr (inserted_id, announcement_doc', coll') \<Rightarrow>
                      (Inr (''Announcement created successfully'',
                            AList.update ''_id'' (BString (str inserted_id)) announcement_doc'),
                       db\<lparr>announcements_collection := coll'\<rparr>))))"

definition update_announcement ::
  "(string \<Rightarrow> bool) \<Rightarrow> database \<Rightarrow> string \<Rightarrow> string \<Rightarrow> string \<Rightarrow> string \<Rightarrow> string option
    \<Rightarrow> bool option \<Rightarrow> (exn + string) \<times> database" where
  \<comment> \<open>\<^verbatim>\<open>active: bool = True\<close>: \<^const>\<open>None\<close> is the call that leaves the parameter out\<close>
  "update_announcement fromisoformat db announcement_id message end_date teacher_username start_date active_param =
     (let active = (case active_param of None \<Rightarrow> True | Some b \<Rightarrow> b)
      in case find_one db (teachers_collection db) (Field ''_id'' (Eq (BString teacher_username))) of
        Inl e \<Rightarrow> (Inl (HTTPException 500 ''Failed to update announcement''), db)
      | Inr teacher \<Rightarrow>
          if falsy teacher then (Inl (HTTPException 401 ''Authentication required''), db)
          else (case parse_ObjectId announcement_id of
            Inl e \<Rightarrow> (Inl (HTTPException 400 ''Invalid announcement ID''), db)
          | Inr obj_id \<Rightarrow>
              (case validate_dates fromisoformat end_date start_date of
                Inl e \<Rightarrow> (Inl (HTTPException 400 ''Invalid date format''), db)
              | Inr _ \<Rightarrow>
                  let update_doc = [
                        (''message'', BString (strip message)),
                        (''start_date'', optional start_date),
                        (''end_date'', BString end_date),
                        (''active'', BBool active)]
                  in (case update_one db (announcements_collection db)
                             (Field ''_id'' (Eq (BObjectId obj_id))) update_doc of
                        Inl e \<Rightarrow> (Inl (HTTPException 500 ''Failed to update announcement''), db)
                      | Inr (matched_count, coll') \<Rightarrow>
                          if matched_count = 0
                          then (Inl (HTTPException 404 ''Announcement not found''),
                                db\<lparr>announcements_collection := coll'\<rparr>)
                          else (Inr ''Announcement updated successfully'',
                                db\<lparr>announcements_collection := coll'\<rparr>)))))"

definition delete_announcement :: "database \<Rightarrow> string \<Rightarrow> string \<Rightarrow> (exn + string) \<times> database" where
  "delete_announcement db announcement_id teacher_username =
     (case find_one db (teachers_collection db) (Field ''_id'' (Eq (BString teacher_username))) of
        Inl e \<Rightarrow> (Inl (HTTPException 500 ''Failed to delete announcement''), db)
      | Inr teacher \<Rightarrow>
          if falsy teacher then (Inl (HTTPException 401 ''Authentication required''), db)
          else (case parse_ObjectId announcement_id of
            Inl e \<Rightarrow> (Inl (HTTPException 400 ''Invalid announcement ID''), db)
          | Inr obj_id \<Rightarrow>
              (case delete_one db (announcements_collection db)
                      (Field ''_id'' (Eq (BObjectId obj_id))) of
                 Inl e \<Rightarrow> (Inl (HTTPException 500 ''Failed to delete announcement''), db)
               | Inr (deleted_count, coll') \<Rightarrow>
                   if deleted_count = 0
                   then (Inl (HTTPException 404 ''Announcement not found''),
                         db\<lparr>announcements_collection := coll'\<rparr>)
                   else (Inr ''Announcement deleted successfully'',
                         db\<lparr>announcements_collection := coll'\<rparr>))))"

definition toggle_announcement_status ::
  "database \<Rightarrow> string \<Rightarrow> string \<Rightarrow> (exn + (string \<times> bool)) \<times> database" where
  "toggle_announcement_status db announcement_id teacher_username =
     (case find_one db (teachers_collection db) (Field ''_id'' (Eq (BString teacher_username))) of
        Inl e \<Rightarrow> (Inl (HTTPException 500 ''Failed to toggle announcement status''), db)
      | Inr teacher \<Rightarrow>
          if falsy teacher then (Inl (HTTPException 401 ''Authentication required''), db)
          else (case parse_ObjectId announcement_id of
            Inl e \<Rightarrow> (Inl (HTTPException 400 ''Invalid announcement ID''), db)
          | Inr obj_id \<Rightarrow>
              (case find_one db (announcements_collection db)
                      (Field ''_id'' (Eq (BObjectId obj_id))) of
                 Inl e \<Rightarrow> (Inl (HTTPException 500 ''Failed to toggle announcement status''), db)
               | Inr None \<Rightarrow> (Inl (HTTPException 404 ''Announcement not found''), db)
               | Inr (Some announcement) \<Rightarrow>
                   if announcement = [] then (Inl (HTTPException 404 ''Announcement not found''), db)
                   else
                     let new_status = (\<not> truthy (case map_of announcement ''active'' of
                                                   None \<Rightarrow> BBool True | Some v \<Rightarrow> v))
                     in (case update_one db (announcements_collection db)
                                (Field ''_id'' (Eq (BObjectId obj_id)))
                                [(''active'', BBool new_status)] of
                           Inl e \<Rightarrow>
                             (Inl (HTTPException 500 ''Failed to toggle announcement status''), db)
                         | Inr (matched_count, coll') \<Rightarrow>
                             if matched_count = 0
                             then (Inl (HTTPException 404 ''Announcement not found''),
                                   db\<lparr>announcements_collection := coll'\<rparr>)
                             else
                               let status_text = (if new_status then ''activated'' else ''deactivated'')
                               in (Inr (''Announcement '' @ status_text @ '' successfully'', new_status),
                                   db\<lparr>announcements_collection := coll'\<rparr>)))))"

subsection \<open>The active window as the specification words it\<close>

definition currently_active :: "string \<Rightarrow> document \<Rightarrow> bool" where
  \<comment> \<open>\<^verbatim>\<open>active == true\<close>, \<^verbatim>\<open>start_date\<close> absent, null or at most \<^verbatim>\<open>now\<close>, and
      \<^verbatim>\<open>end_date\<close> at least \<^verbatim>\<open>now\<close>, timestamps compared as strings\<close>
  "currently_active now a =
     (map_of a ''active'' = Some (BBool True) \<and>
      (case map_of a ''start_date'' of
         None \<Rightarrow> True
       | Some BNull \<Rightarrow> True
       | Some (BString start_date) \<Rightarrow> start_date \<le> now
       | Some _ \<Rightarrow> False) \<and>
      (case map_of a ''end_date'' of
         Some (BString end_date) \<Rightarrow> now \<le> end_date
       | _ \<Rightarrow> False))"

subsection \<open>Notions of the specification\<close>

definition normalize_trailing_Z :: "string \<Rightarrow> string" where
  \<comment> \<open>a trailing \<^verbatim>\<open>Z\<close> as the UTC offset \<^verbatim>\<open>+00:00\<close>\<close>
  "normalize_trailing_Z s = (if s \<noteq> [] \<and> last s = CHR ''Z'' then butlast s @ ''+00:00'' else s)"

definition teacher_exists :: "database \<Rightarrow> string \<Rightarrow> bool" where
  \<comment> \<open>the username resolves to a teacher of the directory\<close>
  "teacher_exists db username =
     list_ex (\<lambda>t. map_of t ''_id'' = Some (BString username)) (teachers_collection db)"

definition find_by_id :: "document list \<Rightarrow> objectid \<Rightarrow> document option" where
  \<comment> \<open>the record an identifier names\<close>
  "find_by_id coll oid = List.find (\<lambda>a. map_of a ''_id'' = Some (BObjectId oid)) coll"

definition active_flag :: "document \<Rightarrow> bool" where
  \<comment> \<open>the \<^verbatim>\<open>active\<close> flag of a record; a record without the field counts as active\<close>
  "active_flag a = (case map_of a ''active'' of None \<Rightarrow> True | Some v \<Rightarrow> truthy v)"

definition newer_first :: "document \<Rightarrow> document \<Rightarrow> bool" where
  \<comment> \<open>\<^verbatim>\<open>a\<close> may stand before \<^verbatim>\<open>b\<close> in a listing by \<^verbatim>\<open>created_at\<close> descending\<close>
  "newer_first a b = bson_le (field_value b ''created_at'') (field_value a ''created_at'')"

definition unique_ids :: "document list \<Rightarrow> bool" where
  \<comment> \<open>the store's guarantee: no two documents of a collection share an \<^verbatim>\<open>_id\<close>\<close>
  "unique_ids coll = distinct (map (\<lambda>d. field_value d ''_id'') coll)"

subsection \<open>A small school\<close>

definition exam_notice :: document where
  "exam_notice = [
     (''_id'', BObjectId (ObjectId ''65a000000000000000000001'')),
     (''message'', BString ''Exam Friday''),
     (''start_date'', BNull),
     (''end_date'', BString ''2099-01-01T00:00:00''),
     (''created_by'', BString ''t1''),
     (''created_at'', BString ''2026-09-01T08:00:00.000000''),
     (''active'', BBool True)]"

definition trip_notice :: document where
  \<comment> \<open>switched off by hand\<close>
  "trip_notice = [
     (''_id'', BObjectId (ObjectId ''65a000000000000000000002'')),
     (''message'', BString ''Museum trip''),
     (''start_date'', BString ''2026-10-01T00:00:00''),
     (''end_date'', BString ''2099-01-01T00:00:00''),
     (''created_by'', BString ''t1''),
     (''created_at'', BString ''2026-10-01T08:00:00.000000''),
     (''active'', BBool False)]"

definition fair_notice :: document where
  \<comment> \<open>its window has closed\<close>
  "fair_notice = [
     (''_id'', BObjectId (ObjectId ''65a000000000000000000003'')),
     (''message'', BString ''Science fair''),
     (''start_date'', BNull),
     (''end_date'', BString ''2026-10-15T00:00:00''),
     (''created_by'', BString ''t2''),
     (''created_at'', BString ''2026-09-15T08:00:00.000000''),
     (''active'', BBool True)]"

definition school :: database where
  "school = \<lparr>
     announcements_collection = [exam_notice, trip_notice, fair_notice],
     teachers_collection = [[(''_id'', BString ''t1'')], [(''_id'', BString ''t2'')]],
     server_up = True\<rparr>"

definition school_offline :: database where
  "school_offline = school\<lparr>server_up := False\<rparr>"

definition this_morning :: string where
  "this_morning = ''2026-11-04T09:00:00.000000''"

section \<open>Properties of the store model\<close>

lemma replace_Z_plain: "CHR ''Z'' \<notin> set s \<Longrightarrow> replace_Z s = s"
  by (induction s) (auto simp: replace_Z_def)

lemma replace_Z_trailing:
  assumes "CHR ''Z'' \<notin> set s"
  shows "replace_Z s = normalize_trailing_Z s"
    and "replace_Z (s @ ''Z'') = normalize_trailing_Z (s @ ''Z'')"
proof -
  from assms have "s = [] \<or> last s \<noteq> CHR ''Z''" by (cases s rule: rev_cases) auto
  with assms show "replace_Z s = normalize_trailing_Z s"
    by (auto simp: normalize_trailing_Z_def replace_Z_plain)
  have "replace_Z (s @ ''Z'') = replace_Z s @ ''+00:00''"
    by (simp add: replace_Z_def)
  with assms show "replace_Z (s @ ''Z'') = normalize_trailing_Z (s @ ''Z'')"
    by (simp add: normalize_trailing_Z_def replace_Z_plain)
qed

lemma strip_no_break_space:
  "strip ([CHR 0xC2, CHR 0xA0] @ ''Hello'' @ [CHR 0xE3, CHR 0x80, CHR 0x80, CHR 0x0A]) = ''Hello''"
  by (simp add: strip_def lstrip_def rstrip_def isspace_def)

lemma matches_active_query:
  "matches (And [Field ''active'' (Eq (BBool True)),
                 Or [Field ''start_date'' (Eq BNull), Field ''start_date'' (Lte (BString now))],
                 Field ''end_date'' (Gte (BString now))]) a
   = currently_active now a"
  by (auto simp: currently_active_def field_value_def split: option.splits bson.splits)

lemma matches_teacher_id:
  "matches (Field ''_id'' (Eq (BString u))) t = (map_of t ''_id'' = Some (BString u))"
  by (auto simp: field_value_def split: option.splits)

lemma matches_announcement_id:
  "matches (Field ''_id'' (Eq (BObjectId oid))) a = (map_of a ''_id'' = Some (BObjectId oid))"
  by (auto simp: field_value_def split: option.splits)

lemma mset_insert_sorted: "mset (insert_sorted k dir d xs) = add_mset d (mset xs)"
  by (induction xs) auto

lemma mset_sort_cursor: "mset (sort_cursor k dir ds) = mset ds"
  by (induction ds) (auto simp: sort_cursor_def mset_insert_sorted)

lemma falsy_find_teacher:
  "falsy (List.find (matches (Field ''_id'' (Eq (BString u)))) ts)
   = (\<not> list_ex (\<lambda>t. map_of t ''_id'' = Some (BString u)) ts)"
  by (induction ts) (auto simp: falsy_def matches_teacher_id simp del: matches.simps)

lemma teacher_lookup:
  "server_up db \<Longrightarrow>
   find_one db (teachers_collection db) (Field ''_id'' (Eq (BString u)))
     = Inr (List.find (matches (Field ''_id'' (Eq (BString u)))) (teachers_collection db))"
  by (simp add: find_one_def)

lemma teacher_lookup_falsy:
  "falsy (List.find (matches (Field ''_id'' (Eq (BString u)))) (teachers_collection db))
   = (\<not> teacher_exists db u)"
  by (simp only: falsy_find_teacher teacher_exists_def)

lemmas auth = teacher_lookup teacher_lookup_falsy

lemma school_up: "server_up school"
  by (simp add: school_def)

lemma school_teacher: "teacher_exists school ''t1''"
  by (simp add: teacher_exists_def school_def)

lemma school_stranger: "\<not> teacher_exists school ''mallory''"
  by (simp add: teacher_exists_def school_def)

lemma same_type_le_trans:
  "same_type_le a b \<Longrightarrow> same_type_le b c \<Longrightarrow> same_type_le a c"
  by (cases a; cases b; cases c) auto

lemma same_type_le_type: "same_type_le a b \<Longrightarrow> type_order a = type_order b"
  by (cases a; cases b) auto

lemma bson_le_trans: "bson_le a b \<Longrightarrow> bson_le b c \<Longrightarrow> bson_le a c"
  unfolding bson_le_def
  by (metis same_type_le_trans same_type_le_type less_trans)

lemma bson_le_total: "bson_le a b \<or> bson_le b a"
  unfolding bson_le_def by (cases a; cases b) auto

lemma set_insert_sorted: "set (insert_sorted k dir d xs) = insert d (set xs)"
  by (induction xs) auto

lemma sorted_insert_sorted:
  assumes "sorted_wrt newer_first xs"
  shows "sorted_wrt newer_first (insert_sorted ''created_at'' (- 1) d xs)"
  using assms
proof (induction xs)
  case Nil
  then show ?case by simp
next
  case (Cons x xs)
  show ?case
  proof (cases "bson_le (field_value x ''created_at'') (field_value d ''created_at'')")
    case True
    have "newer_first d y" if "y \<in> set xs" for y
      using that Cons.prems True bson_le_trans unfolding newer_first_def by auto
    with True Cons.prems show ?thesis by (simp add: newer_first_def)
  next
    case False
    then have "newer_first x d"
      using bson_le_total unfolding newer_first_def by blast
    with False Cons show ?thesis by (auto simp: set_insert_sorted)
  qed
qed

lemma sorted_sort_cursor: "sorted_wrt newer_first (sort_cursor ''created_at'' (- 1) ds)"
  by (induction ds) (auto simp: sort_cursor_def sorted_insert_sorted)

lemma id_to_str_other: "k \<noteq> ''_id'' \<Longrightarrow> map_of (id_to_str a) k = map_of a k"
  by (simp add: id_to_str_def update_conv')

lemma newer_first_id_to_str: "newer_first (id_to_str a) (id_to_str b) = newer_first a b"
  by (simp add: newer_first_def field_value_def id_to_str_other)

lemma matches_all: "matches (And []) d"
  by simp

lemma find_by_id_matches:
  "List.find (matches (Field ''_id'' (Eq (BObjectId oid)))) coll = find_by_id coll oid"
  unfolding find_by_id_def
  by (rule find_cong) (simp_all add: matches_announcement_id del: matches.simps)

lemma find_by_id_append:
  "find_by_id (xs @ ys) oid =
     (case find_by_id xs oid of None \<Rightarrow> find_by_id ys oid | Some a \<Rightarrow> Some a)"
  unfolding find_by_id_def by (induction xs) auto

lemma find_by_id_Cons:
  "find_by_id (a # xs) oid =
     (if map_of a ''_id'' = Some (BObjectId oid) then Some a else find_by_id xs oid)"
  by (simp add: find_by_id_def)

lemma find_by_id_split:
  assumes "find_by_id coll oid = Some a"
  shows "\<exists>pre post. coll = pre @ a # post \<and> find_by_id pre oid = None \<and>
                    map_of a ''_id'' = Some (BObjectId oid)"
  using assms
proof (induction coll)
  case Nil
  then show ?case by (simp add: find_by_id_def)
next
  case (Cons x coll)
  show ?case
  proof (cases "map_of x ''_id'' = Some (BObjectId oid)")
    case True
    with Cons.prems have "x = a" by (simp add: find_by_id_Cons)
    with True have "x # coll = [] @ a # coll \<and> find_by_id [] oid = None \<and>
        map_of a ''_id'' = Some (BObjectId oid)"
      by (simp add: find_by_id_def)
    then show ?thesis by blast
  next
    case False
    with Cons.prems have "find_by_id coll oid = Some a" by (simp add: find_by_id_Cons)
    from Cons.IH [OF this] obtain pre post where
      "coll = pre @ a # post" "find_by_id pre oid = None" "map_of a ''_id'' = Some (BObjectId oid)"
      by blast
    with False have "x # coll = (x # pre) @ a # post \<and> find_by_id (x # pre) oid = None \<and>
        map_of a ''_id'' = Some (BObjectId oid)"
      by (simp add: find_by_id_Cons)
    then show ?thesis by blast
  qed
qed

lemma update_first_unmatched:
  "find_by_id coll oid = None \<Longrightarrow>
   update_first (Field ''_id'' (Eq (BObjectId oid))) upd coll = (coll, 0)"
  by (induction coll)
     (auto simp: find_by_id_Cons matches_announcement_id simp del: matches.simps split: if_splits)

lemma update_first_matched:
  "find_by_id pre oid = None \<Longrightarrow> map_of a ''_id'' = Some (BObjectId oid) \<Longrightarrow>
   update_first (Field ''_id'' (Eq (BObjectId oid))) upd (pre @ a # post)
     = (pre @ set_fields upd a # post, 1)"
  by (induction pre)
     (auto simp: find_by_id_Cons matches_announcement_id simp del: matches.simps split: if_splits)

lemma delete_first_unmatched:
  "find_by_id coll oid = None \<Longrightarrow>
   delete_first (Field ''_id'' (Eq (BObjectId oid))) coll = (coll, 0)"
  by (induction coll)
     (auto simp: find_by_id_Cons matches_announcement_id simp del: matches.simps split: if_splits)

lemma delete_first_matched:
  "find_by_id pre oid = None \<Longrightarrow> map_of a ''_id'' = Some (BObjectId oid) \<Longrightarrow>
   delete_first (Field ''_id'' (Eq (BObjectId oid))) (pre @ a # post) = (pre @ post, 1)"
  by (induction pre)
     (auto simp: find_by_id_Cons matches_announcement_id simp del: matches.simps split: if_splits)

lemma map_of_set_fields4:
  "map_of (set_fields [(k1, v1), (k2, v2), (k3, v3), (k4, v4)] a)
     = (map_of a)(k1 \<mapsto> v1, k2 \<mapsto> v2, k3 \<mapsto> v3, k4 \<mapsto> v4)"
  by (simp add: set_fields_def update_conv')

lemma unique_ids_rest:
  assumes "unique_ids (pre @ a # post)" "map_of a ''_id'' = Some (BObjectId oid)"
  shows "find_by_id post oid = None"
proof -
  have "field_value a ''_id'' = BObjectId oid"
    using assms(2) by (simp add: field_value_def)
  with assms(1) have "\<forall>d \<in> set post. field_value d ''_id'' \<noteq> BObjectId oid"
    unfolding unique_ids_def by (fastforce simp: image_iff)
  then have "\<forall>d \<in> set post. map_of d ''_id'' \<noteq> Some (BObjectId oid)"
    by (auto simp: field_value_def)
  then show ?thesis
    unfolding find_by_id_def by (simp add: find_None_iff)
qed

lemma id_of_set_fields:
  "''_id'' \<notin> fst ` set upd \<Longrightarrow> field_value (set_fields upd d) ''_id'' = field_value d ''_id''"
  unfolding set_fields_def
  by (induction upd arbitrary: d) (auto simp: field_value_def update_conv')

lemma ids_of_update_first:
  "''_id'' \<notin> fst ` set upd \<Longrightarrow>
   map (\<lambda>d. field_value d ''_id'') (fst (update_first q upd coll))
     = map (\<lambda>d. field_value d ''_id'') coll"
  by (induction coll) (auto simp: id_of_set_fields split: prod.splits simp del: matches.simps)

lemma unique_ids_update_first:
  "''_id'' \<notin> fst ` set upd \<Longrightarrow> unique_ids coll \<Longrightarrow> unique_ids (fst (update_first q upd coll))"
  by (simp add: unique_ids_def ids_of_update_first)

lemma ids_of_delete_first:
  "set (fst (delete_first q coll)) \<subseteq> set coll"
  by (induction coll) (auto split: prod.splits simp del: matches.simps)

lemma unique_ids_delete_first:
  "unique_ids coll \<Longrightarrow> unique_ids (fst (delete_first q coll))"
  unfolding unique_ids_def
proof (induction coll)
  case Nil
  then show ?case by simp
next
  case (Cons d coll)
  then show ?case
    using ids_of_delete_first [of q coll]
    by (auto split: prod.splits simp del: matches.simps)
qed

lemma unique_ids_update_first_result:
  "''_id'' \<notin> fst ` set upd \<Longrightarrow> unique_ids coll \<Longrightarrow> update_first q upd coll = (coll', n)
   \<Longrightarrow> unique_ids coll'"
  using unique_ids_update_first [of upd coll q] by simp

lemma unique_ids_delete_first_result:
  "unique_ids coll \<Longrightarrow> delete_first q coll = (coll', n) \<Longrightarrow> unique_ids coll'"
  using unique_ids_delete_first [of coll q] by simp

section \<open>Properties of the handlers\<close>

lemma validate_dates_Inl:
  "(validate_dates fromisoformat end_date start_date \<noteq> Inr ()) =
   (\<not> fromisoformat (replace_Z end_date) \<or>
    (\<exists>s. start_date = Some s \<and> s \<noteq> [] \<and> \<not> fromisoformat (replace_Z s)))"
  by (auto simp: validate_dates_def split: option.splits)

lemma create_announcement_cases:
  "create_announcement fromisoformat db now gen message end_date u start_date =
     (if \<not> server_up db then (Inl (HTTPException 500 ''Failed to create announcement''), db)
      else if \<not> teacher_exists db u then (Inl (HTTPException 401 ''Authentication required''), db)
      else if validate_dates fromisoformat end_date start_date \<noteq> Inr ()
        then (Inl (HTTPException 400 ''Invalid date format''), db)
      else if list_ex (\<lambda>d. field_value d ''_id'' = BObjectId gen) (announcements_collection db)
        then (Inl (HTTPException 500 ''Failed to create announcement''), db)
      else (Inr (''Announcement created successfully'',
                 [(''message'', BString (strip message)),
                  (''start_date'', optional start_date),
                  (''end_date'', BString end_date),
                  (''created_by'', BString u),
                  (''created_at'', BString now),
                  (''active'', BBool True),
                  (''_id'', BString (hex gen))]),
            db\<lparr>announcements_collection := announcements_collection db @
                 [[(''message'', BString (strip message)),
                  (''start_date'', optional start_date),
                  (''end_date'', BString end_date),
                  (''created_by'', BString u),
                  (''created_at'', BString now),
                  (''active'', BBool True),
                  (''_id'', BObjectId gen)]]\<rparr>))"
proof (cases "server_up db")
  case False
  then show ?thesis by (simp add: create_announcement_def find_one_def)
next
  case True
  then show ?thesis
    by (auto simp add: create_announcement_def auth insert_one_def field_value_def Let_def
        simp del: matches.simps split: sum.splits)
qed

lemma update_announcement_not_found:
  assumes "server_up db" "teacher_exists db u" "parse_ObjectId aid = Inr oid"
    "validate_dates fromisoformat end_date start_date = Inr ()"
    "find_by_id (announcements_collection db) oid = None"
  shows "update_announcement fromisoformat db aid message end_date u start_date active
           = (Inl (HTTPException 404 ''Announcement not found''), db)"
  using assms
  by (simp add: update_announcement_def auth update_one_def update_first_unmatched
      del: matches.simps)

lemma update_announcement_found:
  assumes "server_up db" "teacher_exists db u" "parse_ObjectId aid = Inr oid"
    "validate_dates fromisoformat end_date start_date = Inr ()"
    "announcements_collection db = pre @ a # post" "find_by_id pre oid = None"
    "map_of a ''_id'' = Some (BObjectId oid)"
  shows "update_announcement fromisoformat db aid message end_date u start_date active
           = (Inr ''Announcement updated successfully'',
              db\<lparr>announcements_collection := pre @
                 set_fields [(''message'', BString (strip message)),
                             (''start_date'', optional start_date),
                             (''end_date'', BString end_date),
                             (''active'', BBool (case active of None \<Rightarrow> True | Some b \<Rightarrow> b))] a
                 # post\<rparr>)"
  using assms
  by (simp add: update_announcement_def auth update_one_def update_first_matched
      del: matches.simps)

lemma update_announcement_success:
  assumes "update_announcement fromisoformat db aid message end_date u start_date active = (Inr msg, db')"
  shows "server_up db \<and> teacher_exists db u \<and> validate_dates fromisoformat end_date start_date = Inr () \<and>
         (\<exists>oid a. parse_ObjectId aid = Inr oid \<and>
                  find_by_id (announcements_collection db) oid = Some a)"
proof -
  have up: "server_up db"
    using assms by (auto simp: update_announcement_def find_one_def split: if_splits)
  have teacher: "teacher_exists db u"
    using assms up by (auto simp: update_announcement_def auth simp del: matches.simps split: if_splits)
  obtain oid where oid: "parse_ObjectId aid = Inr oid"
    using assms up teacher
    by (cases "parse_ObjectId aid") (auto simp: update_announcement_def auth simp del: matches.simps)
  have dates: "validate_dates fromisoformat end_date start_date = Inr ()"
    using assms up teacher oid
    by (cases "validate_dates fromisoformat end_date start_date")
       (auto simp: update_announcement_def auth simp del: matches.simps)
  have "find_by_id (announcements_collection db) oid \<noteq> None"
  proof
    assume "find_by_id (announcements_collection db) oid = None"
    from update_announcement_not_found [OF up teacher oid dates this, of message active] assms
    show False by simp
  qed
  with up teacher oid dates show ?thesis by auto
qed

lemma update_announcement_effect:
  assumes "update_announcement fromisoformat db aid message end_date u start_date active = (Inr msg, db')"
  shows "\<exists>oid pre a post.
           parse_ObjectId aid = Inr oid \<and>
           announcements_collection db = pre @ a # post \<and>
           find_by_id pre oid = None \<and>
           map_of a ''_id'' = Some (BObjectId oid) \<and>
           db' = db\<lparr>announcements_collection := pre @
                   set_fields [(''message'', BString (strip message)),
                               (''start_date'', optional start_date),
                               (''end_date'', BString end_date),
                               (''active'', BBool (case active of None \<Rightarrow> True | Some b \<Rightarrow> b))] a
                   # post\<rparr>"
proof -
  from update_announcement_success [OF assms] obtain oid a where
    up: "server_up db" and teacher: "teacher_exists db u" and
    dates: "validate_dates fromisoformat end_date start_date = Inr ()" and
    oid: "parse_ObjectId aid = Inr oid" and
    found: "find_by_id (announcements_collection db) oid = Some a"
    by blast
  from find_by_id_split [OF found] obtain pre post where
    split: "announcements_collection db = pre @ a # post" "find_by_id pre oid = None"
      "map_of a ''_id'' = Some (BObjectId oid)"
    by blast
  from update_announcement_found [OF up teacher oid dates split, of message active] assms
  show ?thesis using oid split by auto
qed

lemma active_flag_code:
  "truthy (case map_of a ''active'' of None \<Rightarrow> BBool True | Some v \<Rightarrow> v) = active_flag a"
  by (simp add: active_flag_def split: option.splits)

lemma teacher_exists_collection [simp]:
  "teacher_exists (db\<lparr>announcements_collection := c\<rparr>) u = teacher_exists db u"
  by (simp add: teacher_exists_def)

lemma toggle_announcement_status_not_found:
  assumes "server_up db" "teacher_exists db u" "parse_ObjectId aid = Inr oid"
    "find_by_id (announcements_collection db) oid = None"
  shows "toggle_announcement_status db aid u
           = (Inl (HTTPException 404 ''Announcement not found''), db)"
  using assms
  by (simp add: toggle_announcement_status_def auth find_one_def find_by_id_matches
      del: matches.simps)

lemma toggle_announcement_status_found:
  assumes "server_up db" "teacher_exists db u" "parse_ObjectId aid = Inr oid"
    "announcements_collection db = pre @ a # post" "find_by_id pre oid = None"
    "map_of a ''_id'' = Some (BObjectId oid)"
  shows "toggle_announcement_status db aid u
           = (Inr (''Announcement '' @ (if \<not> active_flag a then ''activated'' else ''deactivated'')
                     @ '' successfully'', \<not> active_flag a),
              db\<lparr>announcements_collection :=
                   pre @ AList.update ''active'' (BBool (\<not> active_flag a)) a # post\<rparr>)"
proof -
  have "find_by_id (announcements_collection db) oid = Some a"
    using assms by (simp add: find_by_id_append find_by_id_Cons)
  moreover have "a \<noteq> []" using assms(6) by auto
  ultimately show ?thesis
    using assms
    by (simp add: toggle_announcement_status_def auth find_one_def find_by_id_matches
        update_one_def update_first_matched active_flag_code set_fields_def Let_def
        del: matches.simps)
qed

lemma toggle_announcement_status_success:
  assumes "toggle_announcement_status db aid u = (Inr r, db')"
  shows "server_up db \<and> teacher_exists db u \<and>
         (\<exists>oid a. parse_ObjectId aid = Inr oid \<and>
                  find_by_id (announcements_collection db) oid = Some a)"
proof -
  have up: "server_up db"
    using assms by (auto simp: toggle_announcement_status_def find_one_def split: if_splits)
  have teacher: "teacher_exists db u"
    using assms up
    by (auto simp: toggle_announcement_status_def auth simp del: matches.simps split: if_splits)
  obtain oid where oid: "parse_ObjectId aid = Inr oid"
    using assms up teacher
    by (cases "parse_ObjectId aid")
       (auto simp: toggle_announcement_status_def auth simp del: matches.simps)
  have "find_by_id (announcements_collection db) oid \<noteq> None"
  proof
    assume "find_by_id (announcements_collection db) oid = None"
    from toggle_announcement_status_not_found [OF up teacher oid this] assms
    show False by simp
  qed
  with up teacher oid show ?thesis by auto
qed

lemma delete_announcement_not_found:
  assumes "server_up db" "teacher_exists db u" "parse_ObjectId aid = Inr oid"
    "find_by_id (announcements_collection db) oid = None"
  shows "delete_announcement db aid u = (Inl (HTTPException 404 ''Announcement not found''), db)"
  using assms
  by (simp add: delete_announcement_def auth delete_one_def delete_first_unmatched
      del: matches.simps)

lemma delete_announcement_found:
  assumes "server_up db" "teacher_exists db u" "parse_ObjectId aid = Inr oid"
    "announcements_collection db = pre @ a # post" "find_by_id pre oid = None"
    "map_of a ''_id'' = Some (BObjectId oid)"
  shows "delete_announcement db aid u
           = (Inr ''Announcement deleted successfully'',
              db\<lparr>announcements_collection := pre @ post\<rparr>)"
  using assms
  by (simp add: delete_announcement_def auth delete_one_def delete_first_matched
      del: matches.simps)

lemma unique_ids_create:
  "unique_ids (announcements_collection db) \<Longrightarrow>
   unique_ids (announcements_collection
     (snd (create_announcement fromisoformat db now gen message end_date u start_date)))"
  unfolding create_announcement_cases
  by (auto simp: unique_ids_def field_value_def list_ex_iff image_iff)

lemma unique_ids_update:
  "unique_ids (announcements_collection db) \<Longrightarrow>
   unique_ids (announcements_collection
     (snd (update_announcement fromisoformat db aid message end_date u start_date active)))"
  by (auto simp: update_announcement_def update_one_def find_one_def
      split: sum.splits prod.splits if_splits simp del: matches.simps
      elim!: unique_ids_update_first_result [rotated 1])

lemma unique_ids_delete:
  "unique_ids (announcements_collection db) \<Longrightarrow>
   unique_ids (announcements_collection (snd (delete_announcement db aid u)))"
  by (auto simp: delete_announcement_def delete_one_def find_one_def
      split: sum.splits prod.splits if_splits simp del: matches.simps
      elim!: unique_ids_delete_first_result)

lemma unique_ids_toggle:
  "unique_ids (announcements_collection db) \<Longrightarrow>
   unique_ids (announcements_collection (snd (toggle_announcement_status db aid u)))"
  by (auto simp: toggle_announcement_status_def update_one_def find_one_def Let_def
      split: sum.splits prod.splits if_splits option.splits simp del: matches.simps
      elim!: unique_ids_update_first_result [rotated 1])

section \<open>Facts about the small school\<close>

lemma good_end_date: "documented_format (replace_Z ''2099-01-01T00:00:00'')"
  by (simp add: replace_Z_def documented_format_def parse_isoformat_date_def
      parse_isoformat_time_def parse_hh_mm_ss_ff_def number_def isdigit_def digit_def
      days_in_month_def is_leap_def)

lemma bad_end_date: "\<not> documented_format (replace_Z ''not-a-date'')"
  by (simp add: replace_Z_def documented_format_def parse_isoformat_date_def)

lemma good_dates: "validate_dates documented_format ''2099-01-01T00:00:00'' None = Inr ()"
  using good_end_date by (simp add: validate_dates_def)

lemma moved_dates:
  "validate_dates documented_format ''2099-06-01T00:00:00Z'' (Some ''2026-12-01T00:00:00'') = Inr ()"
  by (simp add: validate_dates_def replace_Z_def documented_format_def parse_isoformat_date_def
      parse_isoformat_time_def parse_hh_mm_ss_ff_def number_def isdigit_def digit_def
      days_in_month_def is_leap_def)

lemma strip_example: "strip ''  Museum trip on Monday '' = ''Museum trip on Monday''"
  by (simp add: strip_def lstrip_def rstrip_def isspace_def)

lemma school_fresh_id:
  "\<not> list_ex (\<lambda>d. field_value d ''_id'' = BObjectId (ObjectId ''65a000000000000000000004''))
        (announcements_collection school)"
  by (simp add: school_def exam_notice_def trip_notice_def fair_notice_def field_value_def)

lemma exam_id:
  "parse_ObjectId ''65a000000000000000000001'' = Inr (ObjectId ''65a000000000000000000001'')"
  by (simp add: parse_ObjectId_def ascii_space_def isdigit_def lower_def)

lemma trip_id:
  "parse_ObjectId ''65A000000000000000000002'' = Inr (ObjectId ''65a000000000000000000002'')"
  by (simp add: parse_ObjectId_def ascii_space_def isdigit_def lower_def)

lemma unknown_id:
  "parse_ObjectId ''65a0000000000000000000ff'' = Inr (ObjectId ''65a0000000000000000000ff'')"
  by (simp add: parse_ObjectId_def ascii_space_def isdigit_def lower_def)

lemma spaced_id:
  "parse_ObjectId ''65a00000000000000000  01'' = Inr (ObjectId ''65a0000000000000000001'')"
  by (simp add: parse_ObjectId_def ascii_space_def isdigit_def lower_def)

lemma malformed_id: "parse_ObjectId ''65a00000000000000000zz01'' = Inl InvalidId"
  by (simp add: parse_ObjectId_def ascii_space_def isdigit_def lower_def)

lemma interior_Z_dates: "validate_dates documented_format ''2024-01-01T10:00Z:00'' None = Inr ()"
  by (simp add: validate_dates_def replace_Z_def documented_format_def parse_isoformat_date_def
      parse_isoformat_time_def parse_hh_mm_ss_ff_def number_def isdigit_def digit_def
      days_in_month_def is_leap_def)

lemma interior_Z_unparsed: "\<not> documented_format (normalize_trailing_Z ''2024-01-01T10:00Z:00'')"
  by (simp add: normalize_trailing_Z_def documented_format_def parse_isoformat_date_def
      parse_isoformat_time_def parse_hh_mm_ss_ff_def number_def isdigit_def digit_def
      days_in_month_def is_leap_def)

lemma school_unknown_id:
  "find_by_id (announcements_collection school) (ObjectId ''65a0000000000000000000ff'') = None"
  by (simp add: find_by_id_def school_def exam_notice_def trip_notice_def fair_notice_def)

lemma school_unique: "unique_ids (announcements_collection school)"
  by (simp add: unique_ids_def school_def exam_notice_def trip_notice_def fair_notice_def field_value_def)

lemma school_collection:
  "announcements_collection school = [] @ exam_notice # [trip_notice, fair_notice]"
  by (simp add: school_def)

lemma school_collection_trip: "announcements_collection school = [exam_notice] @ trip_notice # [fair_notice]"
  by (simp add: school_def)

lemma exam_notice_id:
  "map_of exam_notice ''_id'' = Some (BObjectId (ObjectId ''65a000000000000000000001''))"
  by (simp add: exam_notice_def)

lemma trip_notice_id:
  "map_of trip_notice ''_id'' = Some (BObjectId (ObjectId ''65a000000000000000000002''))"
  by (simp add: trip_notice_def)

lemma before_trip: "find_by_id [exam_notice] (ObjectId ''65a000000000000000000002'') = None"
  by (simp add: find_by_id_def exam_notice_def)

lemma before_exam: "find_by_id [] oid = None"
  by (simp add: find_by_id_def)

lemma school_trip:
  "find_by_id (announcements_collection school) (ObjectId ''65a000000000000000000002'') = Some trip_notice"
  by (simp add: find_by_id_def school_def exam_notice_def trip_notice_def)

lemma trip_inactive: "map_of trip_notice ''active'' = Some (BBool False)"
  by (simp add: trip_notice_def)

section \<open>The claims\<close>

text \<open>
  C1. When the store answers, \<^verbatim>\<open>listActive\<close> returns exactly the announcements that
  are currently active at the instant of the query: \<^verbatim>\<open>active\<close> is true, \<^verbatim>\<open>start_date\<close> is
  absent, null or at most \<^verbatim>\<open>now\<close>, and \<^verbatim>\<open>end_date\<close> is at least \<^verbatim>\<open>now\<close>, as strings.
  Each such announcement is returned once for each time the store holds it, with its
  \<^verbatim>\<open>_id\<close> as a string, and nothing else is returned. (The answer when the store fails is
  C2.)
\<close>

theorem get_active_announcements_exact:
  assumes "server_up db"
  shows "\<exists>xs. get_active_announcements db now = (Inr xs, db) \<and>
              mset xs = mset (map id_to_str
                              (filter (currently_active now) (announcements_collection db)))"
  using assms
  by (simp add: get_active_announcements_def find_sort_def mset_sort_cursor matches_active_query
      del: matches.simps)

theorem get_active_announcements_exact_witness:
  "server_up school \<and>
   get_active_announcements school this_morning = (Inr [id_to_str exam_notice], school)"
proof -
  have "filter (currently_active this_morning) (announcements_collection school) = [exam_notice]"
    by (simp add: school_def currently_active_def this_morning_def exam_notice_def
        trip_notice_def fair_notice_def)
  with get_active_announcements_exact [OF school_up, of this_morning] school_up show ?thesis
    by auto
qed

text \<open>
  C2. \<^verbatim>\<open>listActive\<close> never raises: for every database and instant it returns a
  sequence and leaves the database as it was, and when the store fails the sequence is
  empty.
\<close>

theorem get_active_announcements_never_raises:
  "\<exists>xs. get_active_announcements db now = (Inr xs, db) \<and> (\<not> server_up db \<longrightarrow> xs = [])"
  by (simp add: get_active_announcements_def find_sort_def del: matches.simps)

theorem get_active_announcements_never_raises_witness:
  "\<not> server_up school_offline \<and>
   get_active_announcements school_offline this_morning = (Inr [], school_offline)"
  using get_active_announcements_never_raises [of school_offline this_morning]
  by (auto simp: school_offline_def)

text \<open>
  C3. \<^verbatim>\<open>create\<close> fails without a trace: when the username resolves to no teacher it
  raises \<^verbatim>\<open>Unauthorized\<close>, and when \<^verbatim>\<open>datetime.fromisoformat\<close>, whatever strings it
  accepts, rejects \<^verbatim>\<open>end_date\<close>, or a \<^verbatim>\<open>start_date\<close> that is given and not empty, after
  every \<^verbatim>\<open>Z\<close> in it is replaced by \<^verbatim>\<open>+00:00\<close>, it raises \<^verbatim>\<open>InvalidInput\<close> ("Invalid
  date format"); in both cases the database is as before. For a timestamp whose only
  \<^verbatim>\<open>Z\<close> is its last character that replacement is the normalisation of a trailing
  \<^verbatim>\<open>Z\<close> (\<open>replace_Z_trailing\<close>). The claim as worded fails twice: a \<^verbatim>\<open>start_date\<close>
  given as the empty string is left unchecked by \<^verbatim>\<open>if start_date:\<close>, and an \<^verbatim>\<open>end_date\<close>
  with a \<^verbatim>\<open>Z\<close> inside is accepted when it parses after the replacement although it
  does not parse as it stands.
\<close>

theorem create_announcement_rejects:
  assumes "server_up db"
  shows "(\<not> teacher_exists db u \<longrightarrow>
            create_announcement fromisoformat db now gen message end_date u start_date
              = (Inl (HTTPException 401 ''Authentication required''), db)) \<and>
         (teacher_exists db u' \<and>
          (\<not> fromisoformat (replace_Z end_date') \<or>
           (\<exists>s. start_date' = Some s \<and> s \<noteq> [] \<and> \<not> fromisoformat (replace_Z s))) \<longrightarrow>
            create_announcement fromisoformat db now gen message end_date' u' start_date'
              = (Inl (HTTPException 400 ''Invalid date format''), db))"
  using assms unfolding create_announcement_cases validate_dates_Inl by simp

theorem create_announcement_rejects_witness:
  "server_up school \<and> \<not> teacher_exists school ''mallory'' \<and> teacher_exists school ''t1'' \<and>
   \<not> documented_format (replace_Z ''not-a-date'') \<and>
   create_announcement documented_format school this_morning (ObjectId ''65a000000000000000000004'') ''Hello''
       ''2099-01-01T00:00:00'' ''mallory'' None
     = (Inl (HTTPException 401 ''Authentication required''), school) \<and>
   create_announcement documented_format school this_morning (ObjectId ''65a000000000000000000004'') ''Hello''
       ''not-a-date'' ''t1'' None
     = (Inl (HTTPException 400 ''Invalid date format''), school) \<and>
   create_announcement documented_format school this_morning (ObjectId ''65a000000000000000000004'') ''Hello''
       ''2099-01-01T00:00:00'' ''t1'' (Some ''not-a-date'')
     = (Inl (HTTPException 400 ''Invalid date format''), school)"
proof -
  note unknown_teacher = create_announcement_rejects [OF school_up, of "''mallory''"
      documented_format this_morning
      "ObjectId ''65a000000000000000000004''" "''Hello''" "''2099-01-01T00:00:00''" None
      "''t1''" "''not-a-date''" None]
  note bad_start = create_announcement_rejects [OF school_up, of "''mallory''"
      documented_format this_morning
      "ObjectId ''65a000000000000000000004''" "''Hello''" "''2099-01-01T00:00:00''" None
      "''t1''" "''2099-01-01T00:00:00''" "Some ''not-a-date''"]
  from unknown_teacher bad_start school_up school_stranger school_teacher bad_end_date
  show ?thesis by simp
qed

theorem create_empty_start_date_counterexample:
  "\<not> documented_format (normalize_trailing_Z []) \<and>
   create_announcement documented_format school this_morning
       (ObjectId ''65a000000000000000000004'') ''Hello'' ''2099-01-01T00:00:00'' ''t1'' (Some [])
     = (Inr (''Announcement created successfully'',
             [(''message'', BString ''Hello''), (''start_date'', BString []),
              (''end_date'', BString ''2099-01-01T00:00:00''), (''created_by'', BString ''t1''),
              (''created_at'', BString this_morning), (''active'', BBool True),
              (''_id'', BString ''65a000000000000000000004'')]),
        school\<lparr>announcements_collection := announcements_collection school @
             [[(''message'', BString ''Hello''), (''start_date'', BString []),
               (''end_date'', BString ''2099-01-01T00:00:00''), (''created_by'', BString ''t1''),
               (''created_at'', BString this_morning), (''active'', BBool True),
               (''_id'', BObjectId (ObjectId ''65a000000000000000000004''))]]\<rparr>) \<and>
   \<not> documented_format (normalize_trailing_Z ''2024-01-01T10:00Z:00'') \<and>
   create_announcement documented_format school this_morning
       (ObjectId ''65a000000000000000000004'') ''Hello'' ''2024-01-01T10:00Z:00'' ''t1'' None
     = (Inr (''Announcement created successfully'',
             [(''message'', BString ''Hello''), (''start_date'', BNull),
              (''end_date'', BString ''2024-01-01T10:00Z:00''), (''created_by'', BString ''t1''),
              (''created_at'', BString this_morning), (''active'', BBool True),
              (''_id'', BString ''65a000000000000000000004'')]),
        school\<lparr>announcements_collection := announcements_collection school @
             [[(''message'', BString ''Hello''), (''start_date'', BNull),
               (''end_date'', BString ''2024-01-01T10:00Z:00''), (''created_by'', BString ''t1''),
               (''created_at'', BString this_morning), (''active'', BBool True),
               (''_id'', BObjectId (ObjectId ''65a000000000000000000004''))]]\<rparr>)"
proof -
  have dates: "validate_dates documented_format ''2099-01-01T00:00:00'' (Some []) = Inr ()"
    using good_end_date by (simp add: validate_dates_def)
  have hello: "strip ''Hello'' = ''Hello''"
    by (simp add: strip_def lstrip_def rstrip_def isspace_def)
  have empty: "\<not> documented_format (normalize_trailing_Z [])"
    by (simp add: normalize_trailing_Z_def documented_format_def parse_isoformat_date_def)
  have first: "create_announcement documented_format school this_morning
       (ObjectId ''65a000000000000000000004'') ''Hello'' ''2099-01-01T00:00:00'' ''t1'' (Some [])
     = (Inr (''Announcement created successfully'',
             [(''message'', BString ''Hello''), (''start_date'', BString []),
              (''end_date'', BString ''2099-01-01T00:00:00''), (''created_by'', BString ''t1''),
              (''created_at'', BString this_morning), (''active'', BBool True),
              (''_id'', BString ''65a000000000000000000004'')]),
        school\<lparr>announcements_collection := announcements_collection school @
             [[(''message'', BString ''Hello''), (''start_date'', BString []),
               (''end_date'', BString ''2099-01-01T00:00:00''), (''created_by'', BString ''t1''),
               (''created_at'', BString this_morning), (''active'', BBool True),
               (''_id'', BObjectId (ObjectId ''65a000000000000000000004''))]]\<rparr>)"
    unfolding create_announcement_cases
    using school_up school_teacher dates school_fresh_id hello by (simp add: optional_def)
  have second: "create_announcement documented_format school this_morning
       (ObjectId ''65a000000000000000000004'') ''Hello'' ''2024-01-01T10:00Z:00'' ''t1'' None
     = (Inr (''Announcement created successfully'',
             [(''message'', BString ''Hello''), (''start_date'', BNull),
              (''end_date'', BString ''2024-01-01T10:00Z:00''), (''created_by'', BString ''t1''),
              (''created_at'', BString this_morning), (''active'', BBool True),
              (''_id'', BString ''65a000000000000000000004'')]),
        school\<lparr>announcements_collection := announcements_collection school @
             [[(''message'', BString ''Hello''), (''start_date'', BNull),
               (''end_date'', BString ''2024-01-01T10:00Z:00''), (''created_by'', BString ''t1''),
               (''created_at'', BString this_morning), (''active'', BBool True),
               (''_id'', BObjectId (ObjectId ''65a000000000000000000004''))]]\<rparr>)"
    unfolding create_announcement_cases
    using school_up school_teacher interior_Z_dates school_fresh_id hello
    by (simp add: optional_def)
  from empty first interior_Z_unparsed second show ?thesis by (intro conjI)
qed



text \<open>
  C5. \<^verbatim>\<open>listAll\<close> raises \<^verbatim>\<open>Unauthorized\<close> when the username resolves to no teacher.
  Otherwise it returns every announcement of the store, active or not, inside its window
  or not, each with its \<^verbatim>\<open>_id\<close> as a string, ordered by \<^verbatim>\<open>created_at\<close> descending.
\<close>

theorem get_all_announcements_newest_first:
  assumes "server_up db"
  shows "(\<not> teacher_exists db u \<longrightarrow>
            get_all_announcements db u = (Inl (HTTPException 401 ''Authentication required''), db)) \<and>
         (teacher_exists db u \<longrightarrow>
            (\<exists>xs. get_all_announcements db u = (Inr xs, db) \<and>
                  mset xs = mset (map id_to_str (announcements_collection db)) \<and>
                  sorted_wrt newer_first xs))"
  using assms
  by (simp add: get_all_announcements_def auth find_sort_def mset_sort_cursor
      sorted_wrt_map newer_first_id_to_str sorted_sort_cursor del: matches.simps add: matches_all)

theorem get_all_announcements_newest_first_witness:
  "server_up school \<and> \<not> teacher_exists school ''mallory'' \<and> teacher_exists school ''t1'' \<and>
   get_all_announcements school ''mallory''
     = (Inl (HTTPException 401 ''Authentication required''), school) \<and>
   get_all_announcements school ''t1''
     = (Inr (map id_to_str [trip_notice, fair_notice, exam_notice]), school)"
proof -
  have "get_all_announcements school ''t1''
     = (Inr (map id_to_str [trip_notice, fair_notice, exam_notice]), school)"
    by (simp add: get_all_announcements_def auth school_up school_teacher find_sort_def
        sort_cursor_def, simp add: school_def exam_notice_def trip_notice_def fair_notice_def field_value_def bson_le_def)
  with get_all_announcements_newest_first [OF school_up, of "''mallory''"]
    get_all_announcements_newest_first [OF school_up, of "''t1''"]
    school_up school_stranger school_teacher
  show ?thesis by blast
qed

text \<open>
  C6. A successful \<^verbatim>\<open>update\<close> changes one record, the first with the given id: its
  \<^verbatim>\<open>message\<close> (without the leading and trailing whitespace that \<^verbatim>\<open>str.strip\<close>
  removes), \<^verbatim>\<open>start_date\<close>, \<^verbatim>\<open>end_date\<close> and \<^verbatim>\<open>active\<close> take the given values;
  \<^verbatim>\<open>created_by\<close>, \<^verbatim>\<open>created_at\<close>, \<^verbatim>\<open>_id\<close> and every other field of it stay, and so do
  all other records and the teachers.
\<close>

theorem update_announcement_frame:
  assumes "update_announcement fromisoformat db aid message end_date u start_date active = (Inr msg, db')"
  shows "\<exists>oid pre a a' post.
           parse_ObjectId aid = Inr oid \<and>
           announcements_collection db = pre @ a # post \<and>
           find_by_id pre oid = None \<and>
           map_of a ''_id'' = Some (BObjectId oid) \<and>
           announcements_collection db' = pre @ a' # post \<and>
           teachers_collection db' = teachers_collection db \<and>
           map_of a' ''message'' = Some (BString (strip message)) \<and>
           map_of a' ''start_date''
             = Some (case start_date of None \<Rightarrow> BNull | Some s \<Rightarrow> BString s) \<and>
           map_of a' ''end_date'' = Some (BString end_date) \<and>
           map_of a' ''active'' = Some (BBool (case active of None \<Rightarrow> True | Some b \<Rightarrow> b)) \<and>
           map_of a' ''created_by'' = map_of a ''created_by'' \<and>
           map_of a' ''created_at'' = map_of a ''created_at'' \<and>
           map_of a' ''_id'' = map_of a ''_id'' \<and>
           (\<forall>k. k \<notin> {''message'', ''start_date'', ''end_date'', ''active''}
                \<longrightarrow> map_of a' k = map_of a k)"
proof -
  define a' where "a' = (\<lambda>a. set_fields [(''message'', BString (strip message)),
      (''start_date'', optional start_date), (''end_date'', BString end_date),
      (''active'', BBool (case active of None \<Rightarrow> True | Some b \<Rightarrow> b))] a)"
  from update_announcement_effect [OF assms] obtain oid pre a post where
    effect: "parse_ObjectId aid = Inr oid" "announcements_collection db = pre @ a # post"
      "find_by_id pre oid = None" "map_of a ''_id'' = Some (BObjectId oid)"
      "db' = db\<lparr>announcements_collection := pre @ a' a # post\<rparr>"
    unfolding a'_def by blast
  have fields: "map_of (a' a) = (map_of a)(''message'' \<mapsto> BString (strip message),
      ''start_date'' \<mapsto> optional start_date, ''end_date'' \<mapsto> BString end_date,
      ''active'' \<mapsto> BBool (case active of None \<Rightarrow> True | Some b \<Rightarrow> b))"
    unfolding a'_def by (rule map_of_set_fields4)
  have "announcements_collection db' = pre @ a' a # post"
    "teachers_collection db' = teachers_collection db"
    by (simp_all add: effect(5))
  moreover have "map_of (a' a) ''message'' = Some (BString (strip message))"
    "map_of (a' a) ''start_date'' = Some (case start_date of None \<Rightarrow> BNull | Some s \<Rightarrow> BString s)"
    "map_of (a' a) ''end_date'' = Some (BString end_date)"
    "map_of (a' a) ''active'' = Some (BBool (case active of None \<Rightarrow> True | Some b \<Rightarrow> b))"
    "map_of (a' a) ''created_by'' = map_of a ''created_by''"
    "map_of (a' a) ''created_at'' = map_of a ''created_at''"
    "map_of (a' a) ''_id'' = map_of a ''_id''"
    by (simp_all add: fields optional_def)
  moreover have "\<forall>k. k \<notin> {''message'', ''start_date'', ''end_date'', ''active''}
      \<longrightarrow> map_of (a' a) k = map_of a k"
    by (simp add: fields)
  ultimately show ?thesis using effect(1-4) by blast
qed

theorem update_announcement_frame_witness:
  "update_announcement documented_format school ''65A000000000000000000002'' ''  Museum trip on Monday ''
       ''2099-06-01T00:00:00Z'' ''t1'' (Some ''2026-12-01T00:00:00'') (Some True)
     = (Inr ''Announcement updated successfully'',
        school\<lparr>announcements_collection := [exam_notice,
           [(''_id'', BObjectId (ObjectId ''65a000000000000000000002'')),
            (''message'', BString ''Museum trip on Monday''),
            (''start_date'', BString ''2026-12-01T00:00:00''),
            (''end_date'', BString ''2099-06-01T00:00:00Z''),
            (''created_by'', BString ''t1''),
            (''created_at'', BString ''2026-10-01T08:00:00.000000''),
            (''active'', BBool True)],
           fair_notice]\<rparr>) \<and>
   (\<exists>oid pre a a' post.
      parse_ObjectId ''65A000000000000000000002'' = Inr oid \<and>
      announcements_collection school = pre @ a # post \<and>
      map_of a ''_id'' = Some (BObjectId oid) \<and>
      map_of a' ''message'' = Some (BString (strip ''  Museum trip on Monday '')) \<and>
      map_of a' ''created_at'' = map_of a ''created_at'')"
proof -
  have run: "update_announcement documented_format school ''65A000000000000000000002'' ''  Museum trip on Monday ''
       ''2099-06-01T00:00:00Z'' ''t1'' (Some ''2026-12-01T00:00:00'') (Some True)
     = (Inr ''Announcement updated successfully'',
        school\<lparr>announcements_collection := [exam_notice,
           [(''_id'', BObjectId (ObjectId ''65a000000000000000000002'')),
            (''message'', BString ''Museum trip on Monday''),
            (''start_date'', BString ''2026-12-01T00:00:00''),
            (''end_date'', BString ''2099-06-01T00:00:00Z''),
            (''created_by'', BString ''t1''),
            (''created_at'', BString ''2026-10-01T08:00:00.000000''),
            (''active'', BBool True)],
           fair_notice]\<rparr>)"
    using update_announcement_found [OF school_up school_teacher trip_id moved_dates
        school_collection_trip before_trip trip_notice_id,
        of "''  Museum trip on Monday ''" "Some True"]
    by (simp add: strip_example set_fields_def optional_def trip_notice_def)
  from update_announcement_frame [OF run]
  have "\<exists>oid pre a a' post.
      parse_ObjectId ''65A000000000000000000002'' = Inr oid \<and>
      announcements_collection school = pre @ a # post \<and>
      map_of a ''_id'' = Some (BObjectId oid) \<and>
      map_of a' ''message'' = Some (BString (strip ''  Museum trip on Monday '')) \<and>
      map_of a' ''created_at'' = map_of a ''created_at''"
    by (elim exE conjE) (intro exI conjI, assumption+)
  with run show ?thesis by (rule conjI)
qed

text \<open>
  C7. \<^verbatim>\<open>update\<close> without the \<^verbatim>\<open>active\<close> parameter is \<^verbatim>\<open>update\<close> with \<^verbatim>\<open>active = true\<close>:
  when it succeeds on a record whose \<^verbatim>\<open>active\<close> was false, the record is active
  afterwards.
\<close>

theorem update_default_reactivates:
  assumes "update_announcement fromisoformat db aid message end_date u start_date None = (Inr msg, db')"
    and "parse_ObjectId aid = Inr oid"
    and "find_by_id (announcements_collection db) oid = Some a"
    and "map_of a ''active'' = Some (BBool False)"
  shows "update_announcement fromisoformat db aid message end_date u start_date None
           = update_announcement fromisoformat db aid message end_date u start_date (Some True) \<and>
         (\<exists>a'. find_by_id (announcements_collection db') oid = Some a' \<and>
               map_of a' ''active'' = Some (BBool True))"
proof -
  from update_announcement_effect [OF assms(1)] assms(2) obtain pre b post where
    effect: "find_by_id pre oid = None" "map_of b ''_id'' = Some (BObjectId oid)"
      "db' = db\<lparr>announcements_collection := pre @
          set_fields [(''message'', BString (strip message)),
                      (''start_date'', optional start_date),
                      (''end_date'', BString end_date),
                      (''active'', BBool True)] b # post\<rparr>"
    by auto
  then have "find_by_id (announcements_collection db') oid
      = Some (set_fields [(''message'', BString (strip message)),
                      (''start_date'', optional start_date),
                      (''end_date'', BString end_date),
                      (''active'', BBool True)] b)"
    by (simp add: find_by_id_append find_by_id_Cons map_of_set_fields4)
  moreover have "update_announcement fromisoformat db aid message end_date u start_date None
           = update_announcement fromisoformat db aid message end_date u start_date (Some True)"
    by (simp add: update_announcement_def)
  ultimately show ?thesis by (simp add: map_of_set_fields4)
qed

theorem update_default_reactivates_witness:
  "update_announcement documented_format school ''65A000000000000000000002'' ''Museum trip''
       ''2099-01-01T00:00:00'' ''t1'' None None
     = (Inr ''Announcement updated successfully'',
        school\<lparr>announcements_collection := [exam_notice,
           [(''_id'', BObjectId (ObjectId ''65a000000000000000000002'')),
            (''message'', BString ''Museum trip''),
            (''start_date'', BNull),
            (''end_date'', BString ''2099-01-01T00:00:00''),
            (''created_by'', BString ''t1''),
            (''created_at'', BString ''2026-10-01T08:00:00.000000''),
            (''active'', BBool True)],
           fair_notice]\<rparr>) \<and>
   parse_ObjectId ''65A000000000000000000002'' = Inr (ObjectId ''65a000000000000000000002'') \<and>
   find_by_id (announcements_collection school) (ObjectId ''65a000000000000000000002'')
     = Some trip_notice \<and>
   map_of trip_notice ''active'' = Some (BBool False) \<and>
   update_announcement documented_format school ''65A000000000000000000002'' ''Museum trip''
       ''2099-01-01T00:00:00'' ''t1'' None None
     = update_announcement documented_format school ''65A000000000000000000002'' ''Museum trip''
         ''2099-01-01T00:00:00'' ''t1'' None (Some True)"
proof -
  have same: "strip ''Museum trip'' = ''Museum trip''"
    by (simp add: strip_def lstrip_def rstrip_def isspace_def)
  have run: "update_announcement documented_format school ''65A000000000000000000002'' ''Museum trip''
       ''2099-01-01T00:00:00'' ''t1'' None None
     = (Inr ''Announcement updated successfully'',
        school\<lparr>announcements_collection := [exam_notice,
           [(''_id'', BObjectId (ObjectId ''65a000000000000000000002'')),
            (''message'', BString ''Museum trip''),
            (''start_date'', BNull),
            (''end_date'', BString ''2099-01-01T00:00:00''),
            (''created_by'', BString ''t1''),
            (''created_at'', BString ''2026-10-01T08:00:00.000000''),
            (''active'', BBool True)],
           fair_notice]\<rparr>)"
    using update_announcement_found [OF school_up school_teacher trip_id good_dates
        school_collection_trip before_trip trip_notice_id, of "''Museum trip''" None]
    by (simp add: same set_fields_def optional_def trip_notice_def)
  from update_default_reactivates [OF run trip_id school_trip trip_inactive] run trip_id
    school_trip trip_inactive
  show ?thesis by simp
qed

text \<open>
  C8. A successful \<^verbatim>\<open>toggleActive\<close> stores and returns the negation of the record's
  \<^verbatim>\<open>active\<close> flag, a record without the field counting as active (so the toggle gives
  false). A second toggle then succeeds, returns the flag the record had before the
  first, and stores it; when the field held that boolean before, the whole database is
  back as it was.
\<close>

theorem toggle_twice_restores:
  assumes "toggle_announcement_status db aid u = (Inr (msg, new_status), db1)"
  shows "\<exists>oid a a1 msg2 db2 a2.
           parse_ObjectId aid = Inr oid \<and>
           find_by_id (announcements_collection db) oid = Some a \<and>
           new_status = (\<not> active_flag a) \<and>
           (map_of a ''active'' = None \<longrightarrow> new_status = False) \<and>
           find_by_id (announcements_collection db1) oid = Some a1 \<and>
           map_of a1 ''active'' = Some (BBool (\<not> active_flag a)) \<and>
           toggle_announcement_status db1 aid u = (Inr (msg2, active_flag a), db2) \<and>
           find_by_id (announcements_collection db2) oid = Some a2 \<and>
           map_of a2 ''active'' = Some (BBool (active_flag a)) \<and>
           (map_of a ''active'' = Some (BBool (active_flag a)) \<longrightarrow> db2 = db)"
proof -
  from toggle_announcement_status_success [OF assms] obtain oid a where
    up: "server_up db" and teacher: "teacher_exists db u" and
    oid: "parse_ObjectId aid = Inr oid" and
    found: "find_by_id (announcements_collection db) oid = Some a"
    by blast
  from find_by_id_split [OF found] obtain pre post where
    split: "announcements_collection db = pre @ a # post" "find_by_id pre oid = None"
      "map_of a ''_id'' = Some (BObjectId oid)"
    by blast
  define a1 where "a1 = AList.update ''active'' (BBool (\<not> active_flag a)) a"
  define a2 where "a2 = AList.update ''active'' (BBool (active_flag a)) a"
  define db2 where "db2 = db\<lparr>announcements_collection := pre @ a2 # post\<rparr>"
  from toggle_announcement_status_found [OF up teacher oid split] assms
  have first: "new_status = (\<not> active_flag a)"
    "db1 = db\<lparr>announcements_collection := pre @ a1 # post\<rparr>"
    by (simp_all add: a1_def)
  have a1: "map_of a1 ''_id'' = Some (BObjectId oid)"
    "map_of a1 ''active'' = Some (BBool (\<not> active_flag a))" "active_flag a1 = (\<not> active_flag a)"
    using split(3) by (simp_all add: a1_def update_conv' active_flag_def)
  have a2: "map_of a2 ''_id'' = Some (BObjectId oid)"
    "map_of a2 ''active'' = Some (BBool (active_flag a))"
    using split(3) by (simp_all add: a2_def update_conv')
  have up1: "server_up db1" and teacher1: "teacher_exists db1 u"
    and coll1: "announcements_collection db1 = pre @ a1 # post"
    using up teacher by (simp_all add: first(2))
  have again: "AList.update ''active'' (BBool (active_flag a)) a1 = a2"
    by (simp add: a1_def a2_def)
  have after: "db1\<lparr>announcements_collection := pre @ a2 # post\<rparr> = db2"
    by (simp add: first(2) db2_def)
  from toggle_announcement_status_found [OF up1 teacher1 oid coll1 split(2) a1(1)]
  have second: "toggle_announcement_status db1 aid u
      = (Inr (''Announcement '' @ (if active_flag a then ''activated'' else ''deactivated'')
                @ '' successfully'', active_flag a), db2)"
    by (simp only: a1(3) not_not again after)
  have found1: "find_by_id (announcements_collection db1) oid = Some a1"
    using split(2) a1(1) by (simp add: coll1 find_by_id_append find_by_id_Cons)
  have found2: "find_by_id (announcements_collection db2) oid = Some a2"
    using split(2) a2(1) by (simp add: db2_def find_by_id_append find_by_id_Cons)
  have absent: "map_of a ''active'' = None \<longrightarrow> new_status = False"
    by (simp add: first(1) active_flag_def)
  have restored: "map_of a ''active'' = Some (BBool (active_flag a)) \<longrightarrow> db2 = db"
  proof
    assume "map_of a ''active'' = Some (BBool (active_flag a))"
    then have "a2 = a" unfolding a2_def by (rule update_triv)
    then show "db2 = db" using split(1) by (simp add: db2_def)
  qed
  from oid found first(1) absent found1 a1(2) second found2 a2(2) restored
  show ?thesis by (intro exI conjI) assumption+
qed

theorem toggle_twice_restores_witness:
  "toggle_announcement_status school ''65A000000000000000000002'' ''t1''
     = (Inr (''Announcement activated successfully'', True),
        school\<lparr>announcements_collection := [exam_notice,
           [(''_id'', BObjectId (ObjectId ''65a000000000000000000002'')),
            (''message'', BString ''Museum trip''),
            (''start_date'', BString ''2026-10-01T00:00:00''),
            (''end_date'', BString ''2099-01-01T00:00:00''),
            (''created_by'', BString ''t1''),
            (''created_at'', BString ''2026-10-01T08:00:00.000000''),
            (''active'', BBool True)],
           fair_notice]\<rparr>) \<and>
   (\<exists>msg2. toggle_announcement_status
       (school\<lparr>announcements_collection := [exam_notice,
           [(''_id'', BObjectId (ObjectId ''65a000000000000000000002'')),
            (''message'', BString ''Museum trip''),
            (''start_date'', BString ''2026-10-01T00:00:00''),
            (''end_date'', BString ''2099-01-01T00:00:00''),
            (''created_by'', BString ''t1''),
            (''created_at'', BString ''2026-10-01T08:00:00.000000''),
            (''active'', BBool True)],
           fair_notice]\<rparr>) ''65A000000000000000000002'' ''t1''
     = (Inr (msg2, False), school))"
proof -
  have flag: "active_flag trip_notice = False"
    by (simp add: active_flag_def trip_notice_def)
  have run: "toggle_announcement_status school ''65A000000000000000000002'' ''t1''
     = (Inr (''Announcement activated successfully'', True),
        school\<lparr>announcements_collection := [exam_notice,
           [(''_id'', BObjectId (ObjectId ''65a000000000000000000002'')),
            (''message'', BString ''Museum trip''),
            (''start_date'', BString ''2026-10-01T00:00:00''),
            (''end_date'', BString ''2099-01-01T00:00:00''),
            (''created_by'', BString ''t1''),
            (''created_at'', BString ''2026-10-01T08:00:00.000000''),
            (''active'', BBool True)],
           fair_notice]\<rparr>)"
    using toggle_announcement_status_found [OF school_up school_teacher trip_id
        school_collection_trip before_trip trip_notice_id]
    by (simp add: flag, simp add: trip_notice_def)
  from toggle_twice_restores [OF run] trip_id school_trip flag trip_inactive run
  show ?thesis by auto
qed

text \<open>
  C9. For a teacher's call with a well-formed id that names no record, \<^verbatim>\<open>delete\<close> raises
  \<^verbatim>\<open>NotFound\<close>, and so does \<^verbatim>\<open>update\<close> when its dates pass validation; the database is
  as before. With identifiers unique in the store, a \<^verbatim>\<open>delete\<close> repeated after it
  succeeded raises \<^verbatim>\<open>NotFound\<close>. The claim as worded, for every such call of
  \<^verbatim>\<open>update\<close>, fails when the dates do not parse: the date check comes before the store
  is consulted and raises \<^verbatim>\<open>InvalidInput\<close>.
\<close>

theorem unknown_id_not_found:
  assumes "server_up db" "teacher_exists db u" "parse_ObjectId aid = Inr oid"
  shows "(find_by_id (announcements_collection db) oid = None \<longrightarrow>
            (validate_dates fromisoformat end_date start_date = Inr () \<longrightarrow>
               update_announcement fromisoformat db aid message end_date u start_date active
                 = (Inl (HTTPException 404 ''Announcement not found''), db)) \<and>
            delete_announcement db aid u
              = (Inl (HTTPException 404 ''Announcement not found''), db)) \<and>
         (unique_ids (announcements_collection db) \<and>
          delete_announcement db aid u = (Inr msg, db') \<longrightarrow>
            delete_announcement db' aid u
              = (Inl (HTTPException 404 ''Announcement not found''), db'))"
proof (intro conjI impI)
  assume "find_by_id (announcements_collection db) oid = None"
    and "validate_dates fromisoformat end_date start_date = Inr ()"
  with assms show "update_announcement fromisoformat db aid message end_date u start_date active
      = (Inl (HTTPException 404 ''Announcement not found''), db)"
    by (simp add: update_announcement_not_found)
next
  assume "find_by_id (announcements_collection db) oid = None"
  with assms show "delete_announcement db aid u
      = (Inl (HTTPException 404 ''Announcement not found''), db)"
    by (simp add: delete_announcement_not_found)
next
  assume both: "unique_ids (announcements_collection db) \<and>
    delete_announcement db aid u = (Inr msg, db')"
  have "find_by_id (announcements_collection db) oid \<noteq> None"
  proof
    assume "find_by_id (announcements_collection db) oid = None"
    from delete_announcement_not_found [OF assms this] both show False by simp
  qed
  then obtain a where "find_by_id (announcements_collection db) oid = Some a" by auto
  from find_by_id_split [OF this] obtain pre post where
    split: "announcements_collection db = pre @ a # post" "find_by_id pre oid = None"
      "map_of a ''_id'' = Some (BObjectId oid)"
    by blast
  from delete_announcement_found [OF assms split] both
  have db': "db' = db\<lparr>announcements_collection := pre @ post\<rparr>" by simp
  from both split have "find_by_id post oid = None"
    by (auto intro: unique_ids_rest)
  with split(2) have gone: "find_by_id (announcements_collection db') oid = None"
    by (simp add: db' find_by_id_append)
  have "server_up db'" "teacher_exists db' u"
    using assms by (simp_all add: db')
  from delete_announcement_not_found [OF this assms(3) gone]
  show "delete_announcement db' aid u
      = (Inl (HTTPException 404 ''Announcement not found''), db')" .
qed

theorem unknown_id_not_found_witness:
  "server_up school \<and> teacher_exists school ''t1'' \<and>
   parse_ObjectId ''65a0000000000000000000ff'' = Inr (ObjectId ''65a0000000000000000000ff'') \<and>
   find_by_id (announcements_collection school) (ObjectId ''65a0000000000000000000ff'') = None \<and>
   validate_dates documented_format ''2099-01-01T00:00:00'' None = Inr () \<and>
   update_announcement documented_format school ''65a0000000000000000000ff'' ''Hello'' ''2099-01-01T00:00:00'' ''t1''
       None None
     = (Inl (HTTPException 404 ''Announcement not found''), school) \<and>
   delete_announcement school ''65a0000000000000000000ff'' ''t1''
     = (Inl (HTTPException 404 ''Announcement not found''), school) \<and>
   unique_ids (announcements_collection school) \<and>
   delete_announcement school ''65a000000000000000000001'' ''t1''
     = (Inr ''Announcement deleted successfully'',
        school\<lparr>announcements_collection := [trip_notice, fair_notice]\<rparr>) \<and>
   delete_announcement (school\<lparr>announcements_collection := [trip_notice, fair_notice]\<rparr>)
       ''65a000000000000000000001'' ''t1''
     = (Inl (HTTPException 404 ''Announcement not found''),
        school\<lparr>announcements_collection := [trip_notice, fair_notice]\<rparr>)"
proof -
  have first: "delete_announcement school ''65a000000000000000000001'' ''t1''
     = (Inr ''Announcement deleted successfully'',
        school\<lparr>announcements_collection := [trip_notice, fair_notice]\<rparr>)"
    using delete_announcement_found [OF school_up school_teacher exam_id school_collection
        before_exam exam_notice_id]
    by simp
  note unknown = unknown_id_not_found [OF school_up school_teacher unknown_id,
      of documented_format "''2099-01-01T00:00:00''" None "''Hello''" None]
  note twice = unknown_id_not_found [OF school_up school_teacher exam_id,
      of _ _ _ _ _ "''Announcement deleted successfully''"
        "school\<lparr>announcements_collection := [trip_notice, fair_notice]\<rparr>"]
  from unknown twice first school_up school_teacher unknown_id school_unknown_id good_dates
    school_unique
  show ?thesis by simp
qed

theorem update_unknown_id_bad_date_counterexample:
  "server_up school \<and> teacher_exists school ''t1'' \<and>
   parse_ObjectId ''65a0000000000000000000ff'' = Inr (ObjectId ''65a0000000000000000000ff'') \<and>
   find_by_id (announcements_collection school) (ObjectId ''65a0000000000000000000ff'') = None \<and>
   update_announcement documented_format school ''65a0000000000000000000ff'' ''Hello'' ''not-a-date'' ''t1'' None None
     = (Inl (HTTPException 400 ''Invalid date format''), school)"
proof -
  have "validate_dates documented_format ''not-a-date'' None = Inl ValueError"
    using bad_end_date by (simp add: validate_dates_def)
  then have "update_announcement documented_format school ''65a0000000000000000000ff'' ''Hello'' ''not-a-date''
      ''t1'' None None = (Inl (HTTPException 400 ''Invalid date format''), school)"
    using school_up school_teacher unknown_id
    by (simp add: update_announcement_def auth del: matches.simps)
  with school_up school_teacher unknown_id school_unknown_id show ?thesis by simp
qed

text \<open>
  C10. In \<^verbatim>\<open>create\<close>, \<^verbatim>\<open>update\<close>, \<^verbatim>\<open>delete\<close> and \<^verbatim>\<open>toggleActive\<close> the teacher check comes
  first: a caller whose username resolves to no teacher gets \<^verbatim>\<open>Unauthorized\<close> whatever the
  id, the dates and the store hold. In \<^verbatim>\<open>update\<close>, \<^verbatim>\<open>delete\<close> and \<^verbatim>\<open>toggleActive\<close> a
  malformed id of a teacher's call, that is one for which \<^verbatim>\<open>ObjectId\<close> raises, gets
  \<^verbatim>\<open>InvalidInput\<close> ("Invalid announcement ID") whatever the dates and the store hold, so
  before any \<^verbatim>\<open>NotFound\<close>. (\<^verbatim>\<open>ObjectId\<close> accepts 24 characters that \<^verbatim>\<open>bytes.fromhex\<close>
  reads, so blanks between the pairs of digits do not make an id malformed.)
\<close>

theorem unauthorized_before_everything:
  assumes "server_up db"
  shows "(\<not> teacher_exists db u \<longrightarrow>
            create_announcement fromisoformat db now gen message end_date u start_date
              = (Inl (HTTPException 401 ''Authentication required''), db) \<and>
            update_announcement fromisoformat db aid message end_date u start_date active
              = (Inl (HTTPException 401 ''Authentication required''), db) \<and>
            delete_announcement db aid u
              = (Inl (HTTPException 401 ''Authentication required''), db) \<and>
            toggle_announcement_status db aid u
              = (Inl (HTTPException 401 ''Authentication required''), db)) \<and>
         (teacher_exists db u' \<and> parse_ObjectId aid' = Inl InvalidId \<longrightarrow>
            update_announcement fromisoformat db aid' message end_date u' start_date active
              = (Inl (HTTPException 400 ''Invalid announcement ID''), db) \<and>
            delete_announcement db aid' u'
              = (Inl (HTTPException 400 ''Invalid announcement ID''), db) \<and>
            toggle_announcement_status db aid' u'
              = (Inl (HTTPException 400 ''Invalid announcement ID''), db))"
  using assms
  by (simp add: create_announcement_def update_announcement_def delete_announcement_def
      toggle_announcement_status_def auth del: matches.simps)

theorem unauthorized_before_everything_witness:
  "server_up school \<and> \<not> teacher_exists school ''mallory'' \<and>
   teacher_exists school ''t1'' \<and> parse_ObjectId ''65a00000000000000000zz01'' = Inl InvalidId \<and>
   create_announcement documented_format school this_morning
       (ObjectId ''65a000000000000000000004'') ''Hello'' ''not-a-date'' ''mallory'' None
     = (Inl (HTTPException 401 ''Authentication required''), school) \<and>
   update_announcement documented_format school ''65a00000000000000000zz01'' ''Hello''
       ''not-a-date'' ''mallory'' None None
     = (Inl (HTTPException 401 ''Authentication required''), school) \<and>
   delete_announcement school ''65a00000000000000000zz01'' ''mallory''
     = (Inl (HTTPException 401 ''Authentication required''), school) \<and>
   toggle_announcement_status school ''65a00000000000000000zz01'' ''mallory''
     = (Inl (HTTPException 401 ''Authentication required''), school) \<and>
   update_announcement documented_format school ''65a00000000000000000zz01'' ''Hello''
       ''not-a-date'' ''t1'' None None
     = (Inl (HTTPException 400 ''Invalid announcement ID''), school) \<and>
   delete_announcement school ''65a00000000000000000zz01'' ''t1''
     = (Inl (HTTPException 400 ''Invalid announcement ID''), school) \<and>
   toggle_announcement_status school ''65a00000000000000000zz01'' ''t1''
     = (Inl (HTTPException 400 ''Invalid announcement ID''), school)"
proof -
  note precedence = unauthorized_before_everything [OF school_up, of "''mallory''"
      documented_format this_morning "ObjectId ''65a000000000000000000004''" "''Hello''"
      "''not-a-date''" None "''65a00000000000000000zz01''" None "''t1''"
      "''65a00000000000000000zz01''"]
  from precedence school_up school_stranger school_teacher malformed_id show ?thesis by blast
qed

end
